theory Spec2Isabelle
  imports Complex_Main "HOL-Library.AList"
begin

section \<open>Engine argument resolution (vllm/engine/arg_utils.py)\<close>

text \<open>
  A shallow embedding of \<^verbatim>\<open>EngineArgs\<close> and of the methods that turn it into a
  \<^verbatim>\<open>VllmConfig\<close>: \<^verbatim>\<open>__post_init__\<close>, \<^verbatim>\<open>create_model_config\<close>,
  \<^verbatim>\<open>create_load_config\<close>, \<^verbatim>\<open>create_engine_config\<close>, \<^verbatim>\<open>_is_v1_supported_oracle\<close>,
  \<^verbatim>\<open>_set_default_args_v0\<close>, \<^verbatim>\<open>_set_default_args_v1\<close> and the three notice helpers.
  Python identifiers that start with an underscore lose it, since an Isabelle name cannot
  start with one.
\<close>

subsection \<open>Python values, exceptions and effects\<close>

text \<open>The values that are formatted into messages or handed to the logger.\<close>

datatype pyval = PyStr string | PyInt int | PyNone | PyStrList "string list"

fun str_of_nat :: "nat \<Rightarrow> string" where
  "str_of_nat n =
     (if n < 10 then [char_of (48 + n)]
      else str_of_nat (n div 10) @ [char_of (48 + n mod 10)])"

declare str_of_nat.simps [simp del]

definition str_of_int :: "int \<Rightarrow> string" where
  "str_of_int i = (if i < 0 then CHR ''-'' # str_of_nat (nat (- i)) else str_of_nat (nat i))"

text \<open>
  \<^verbatim>\<open>repr\<close> of a string and of a list of strings, for strings without quotes or
  escapes (module names, architecture names).
\<close>

definition py_repr_str :: "string \<Rightarrow> string" where
  "py_repr_str s = [CHR 0x27] @ s @ [CHR 0x27]"

fun py_join :: "string \<Rightarrow> string list \<Rightarrow> string" where
  "py_join sep [] = []"
| "py_join sep [x] = x"
| "py_join sep (x # y # ys) = x @ sep @ py_join sep (y # ys)"

definition py_repr_list :: "string list \<Rightarrow> string" where
  "py_repr_list xs = ''['' @ py_join '', '' (map py_repr_str xs) @ '']''"

text \<open>What an f-string puts in place of \<^verbatim>\<open>{v}\<close>.\<close>

fun py_str :: "pyval \<Rightarrow> string" where
  "py_str (PyStr s) = s"
| "py_str (PyInt i) = str_of_int i"
| "py_str PyNone = ''None''"
| "py_str (PyStrList xs) = py_repr_list xs"

definition py_opt_str :: "string option \<Rightarrow> pyval" where
  "py_opt_str v = (case v of None \<Rightarrow> PyNone | Some s \<Rightarrow> PyStr s)"

text \<open>Truthiness of an optional string: \<^verbatim>\<open>None\<close> and the empty string are false.\<close>

definition truthy_str :: "string option \<Rightarrow> bool" where
  "truthy_str v = (case v of None \<Rightarrow> False | Some s \<Rightarrow> s \<noteq> [])"

text \<open>\<^verbatim>\<open>str.split(sep)\<close> for a one-character separator: the empty string gives one empty piece.\<close>

fun py_split :: "char \<Rightarrow> string \<Rightarrow> string list" where
  "py_split sep [] = [[]]"
| "py_split sep (c # cs) =
     (if c = sep then [] # py_split sep cs
      else (case py_split sep cs of [] \<Rightarrow> [[c]] | p # ps \<Rightarrow> (c # p) # ps))"

text \<open>\<^verbatim>\<open>str.lower()\<close> on ASCII and the substring test \<^verbatim>\<open>sub in s\<close>.\<close>

definition py_lower :: "string \<Rightarrow> string" where
  "py_lower s =
     map (\<lambda>c. if 65 \<le> (of_char c :: nat) \<and> (of_char c :: nat) \<le> 90
               then char_of ((of_char c :: nat) + 32) else c) s"

fun py_contains :: "string \<Rightarrow> string \<Rightarrow> bool" where
  "py_contains sub [] = (sub = [])"
| "py_contains sub (c # cs) = (take (length sub) (c # cs) = sub \<or> py_contains sub cs)"

text \<open>The exceptions this file raises, each with its message.\<close>

datatype error =
    ValueError string
  | NotImplementedError string
  | AssertionError

text \<open>
  The effects of a resolution that can be observed from outside: a call of the logger (level,
  format string, arguments) and the construction of a configuration object.
\<close>

datatype level = DEBUG | INFO | WARNING

datatype config_class =
    DeviceConfig_cls | ModelConfig_cls | CacheConfig_cls | ParallelConfig_cls
  | SpeculativeConfig_cls | SchedulerConfig_cls | LoRAConfig_cls | LoadConfig_cls
  | PromptAdapterConfig_cls | DecodingConfig_cls | ObservabilityConfig_cls | VllmConfig_cls

datatype event = Log level string "pyval list" | Constructed config_class

text \<open>
  A computation yields the events it caused, in order, and then either the exception that
  ended it or its value.
\<close>

type_synonym 'a result = "event list \<times> (error + 'a)"

definition ret :: "'a \<Rightarrow> 'a result" where
  "ret x = ([], Inr x)"

definition raise :: "error \<Rightarrow> 'a result" where
  "raise e = ([], Inl e)"

definition emit :: "event \<Rightarrow> unit result" where
  "emit ev = ([ev], Inr ())"

definition bind :: "'a result \<Rightarrow> ('a \<Rightarrow> 'b result) \<Rightarrow> 'b result" where
  "bind m f =
     (case m of
        (evs, Inl e) \<Rightarrow> (evs, Inl e)
      | (evs, Inr x) \<Rightarrow> (case f x of (evs', r) \<Rightarrow> (evs @ evs', r)))"

text \<open>The classes of the configuration objects constructed, in order.\<close>

definition constructed :: "event list \<Rightarrow> config_class list" where
  "constructed evs = concat (map (\<lambda>ev. case ev of Constructed k \<Rightarrow> [k] | Log l f as \<Rightarrow> []) evs)"

subsection \<open>The raw option set\<close>

text \<open>
  The dataclass \<^verbatim>\<open>EngineArgs\<close>. The fields kept are the ones that a branch of this
  file reads or that reach a field of a configuration modelled below; the remaining fields
  are handed unchanged to constructors of \<^verbatim>\<open>vllm.config\<close> and take part in no decision
  here. A \<^verbatim>\<open>dict\<close> is an association list in insertion order, a \<^verbatim>\<open>float\<close> that is
  only compared with its default is a real number. \<open>is_AsyncEngineArgs\<close> is the outcome of
  \<^verbatim>\<open>isinstance(self, AsyncEngineArgs)\<close>.
\<close>

datatype KVTransferConfig = KVTransferConfig string

datatype CompilationConfig = CompilationConfig string

record EngineArgs =
  model :: string
  tokenizer :: "string option"
  task :: string
  download_dir :: "string option"
  load_format :: string
  dtype :: string
  kv_cache_dtype :: string
  seed :: int
  max_model_len :: "int option"
  distributed_executor_backend :: "string option"
  pipeline_parallel_size :: int
  tensor_parallel_size :: int
  block_size :: "int option"
  enable_prefix_caching :: "bool option"
  max_num_batched_tokens :: "int option"
  max_num_partial_prefills :: "int option"
  max_long_partial_prefills :: "int option"
  long_prefill_token_threshold :: "int option"
  max_num_seqs :: "int option"
  disable_log_stats :: bool
  quantization :: "string option"
  enable_lora :: bool
  enable_lora_bias :: bool
  max_loras :: int
  max_lora_rank :: int
  enable_prompt_adapter :: bool
  max_prompt_adapters :: int
  max_prompt_adapter_token :: int
  fully_sharded_loras :: bool
  lora_extra_vocab_size :: int
  lora_dtype :: "string option"
  max_cpu_loras :: "int option"
  device :: string
  num_scheduler_steps :: int
  multi_step_stream_outputs :: bool
  num_gpu_blocks_override :: "int option"
  num_lookahead_slots :: int
  model_loader_extra_config :: "(string \<times> string) list option"
  ignore_patterns :: "string list option"
  preemption_mode :: "string option"
  scheduler_delay_factor :: real
  enable_chunked_prefill :: "bool option"
  guided_decoding_backend :: string
  logits_processor_pattern :: "string option"
  speculative_model :: "string option"
  num_speculative_tokens :: "int option"
  qlora_adapter_name_or_path :: "string option"
  show_hidden_metrics_for_version :: "string option"
  otlp_traces_endpoint :: "string option"
  collect_detailed_traces :: "string option"
  disable_async_output_proc :: bool
  scheduling_policy :: string
  scheduler_cls :: string
  compilation_config :: "CompilationConfig option"
  worker_cls :: string
  kv_transfer_config :: "KVTransferConfig option"
  additional_config :: "(string \<times> string) list option"
  enable_reasoning :: "bool option"
  reasoning_parser :: "string option"
  is_AsyncEngineArgs :: bool

text \<open>
  The class attributes, that is the defaults of the dataclass; the oracle compares the
  instance with them (\<^verbatim>\<open>self.scheduling_policy != EngineArgs.scheduling_policy\<close>).
\<close>

definition EngineArgs_cls :: EngineArgs where
  "EngineArgs_cls = \<lparr>
     model = ''facebook/opt-125m'',
     tokenizer = None,
     task = ''auto'',
     download_dir = None,
     load_format = ''auto'',
     dtype = ''auto'',
     kv_cache_dtype = ''auto'',
     seed = 0,
     max_model_len = None,
     distributed_executor_backend = None,
     pipeline_parallel_size = 1,
     tensor_parallel_size = 1,
     block_size = None,
     enable_prefix_caching = None,
     max_num_batched_tokens = None,
     max_num_partial_prefills = Some 1,
     max_long_partial_prefills = Some 1,
     long_prefill_token_threshold = Some 0,
     max_num_seqs = None,
     disable_log_stats = False,
     quantization = None,
     enable_lora = False,
     enable_lora_bias = False,
     max_loras = 1,
     max_lora_rank = 16,
     enable_prompt_adapter = False,
     max_prompt_adapters = 1,
     max_prompt_adapter_token = 0,
     fully_sharded_loras = False,
     lora_extra_vocab_size = 256,
     lora_dtype = Some ''auto'',
     max_cpu_loras = None,
     device = ''auto'',
     num_scheduler_steps = 1,
     multi_step_stream_outputs = True,
     num_gpu_blocks_override = None,
     num_lookahead_slots = 0,
     model_loader_extra_config = None,
     ignore_patterns = None,
     preemption_mode = None,
     scheduler_delay_factor = 0,
     enable_chunked_prefill = None,
     guided_decoding_backend = ''xgrammar'',
     logits_processor_pattern = None,
     speculative_model = None,
     num_speculative_tokens = None,
     qlora_adapter_name_or_path = None,
     show_hidden_metrics_for_version = None,
     otlp_traces_endpoint = None,
     collect_detailed_traces = None,
     disable_async_output_proc = False,
     scheduling_policy = ''fcfs'',
     scheduler_cls = ''vllm.core.scheduler.Scheduler'',
     compilation_config = None,
     worker_cls = ''auto'',
     kv_transfer_config = None,
     additional_config = None,
     enable_reasoning = None,
     reasoning_parser = None,
     is_AsyncEngineArgs = False \<rparr>"

text \<open>
  \<^verbatim>\<open>__post_init__\<close>: an unset tokenizer (\<^verbatim>\<open>None\<close> or the empty string) becomes the
  model string. The coercion of a compilation level given as an integer or a dictionary and
  the loading of plugins touch no other field.
\<close>

definition post_init :: "EngineArgs \<Rightarrow> EngineArgs" where
  "post_init self =
     (if \<not> truthy_str (tokenizer self) then self\<lparr>tokenizer := Some (model self)\<rparr> else self)"

subsection \<open>What the resolution reads from its surroundings\<close>

text \<open>
  The environment variables of \<^verbatim>\<open>vllm.envs\<close> read by this file;
  \<open>VLLM_USE_V1_is_set\<close> is \<^verbatim>\<open>envs.is_set("VLLM_USE_V1")\<close>.
\<close>

record envs =
  VLLM_USE_V1 :: bool
  VLLM_USE_V1_is_set :: bool
  VLLM_USE_V1_BY_DEFAULT :: bool
  VLLM_CI_USE_S3 :: bool
  VLLM_USE_RAY_SPMD_WORKER :: bool

text \<open>
  \<^verbatim>\<open>vllm.platforms.current_platform\<close>: the answers of the hardware probe.
  \<open>device_capability_major\<close> is \<^verbatim>\<open>get_device_capability().major\<close>, asked for on
  CUDA only.
\<close>

record current_platform =
  is_cuda :: bool
  is_cpu :: bool
  device_capability_major :: int
  get_device_name :: string
  device_type :: string

datatype UsageContext = LLM_CLASS | OPENAI_API_SERVER | OTHER_USAGE string

text \<open>
  The attributes that \<^verbatim>\<open>ModelConfig\<close> derives from the model's files and that this file
  reads back.
\<close>

record model_props =
  resolved_task :: string
  runner_type :: string
  is_multimodal_model :: bool
  use_mla :: bool
  is_v1_compatible :: bool
  architectures :: "string list"
  derived_max_model_len :: int
  get_sliding_window :: "int option"
  is_attention_free :: bool

record SpeculativeConfig =
  spec_draft_model :: string
  spec_num_lookahead_slots :: int

text \<open>
  The collaborators defined outside this file, as the answers they give to the calls of one
  resolution: \<^verbatim>\<open>check_gguf_file\<close>, the two constants of \<^verbatim>\<open>vllm.test_utils\<close>,
  \<^verbatim>\<open>version._prev_minor_version_was\<close>, the attributes derived by \<^verbatim>\<open>ModelConfig\<close>,
  the outcome of \<^verbatim>\<open>SpeculativeConfig.maybe_create_spec_config\<close> and
  \<^verbatim>\<open>parallel_config.use_ray\<close>. The validation that the constructors of
  \<^verbatim>\<open>vllm.config\<close> perform themselves is outside this file and is not modelled; nor
  are \<^verbatim>\<open>current_platform.pre_register_and_update\<close> and the tokenizer pool
  configuration, which is built from three fields that are only passed on.
\<close>

record collaborators =
  check_gguf_file :: "string \<Rightarrow> bool"
  MODELS_ON_S3 :: "string list"
  MODEL_WEIGHTS_S3_BUCKET :: string
  prev_minor_version_was :: "string \<Rightarrow> bool"
  model_derived :: model_props
  maybe_create_spec_config :: "SpeculativeConfig option"
  use_ray :: bool

text \<open>
  The two members of the enumeration \<^verbatim>\<open>LoadFormat\<close> that this file names, with the
  values that its help text for \<^verbatim>\<open>--load-format\<close> gives them.
\<close>

definition LoadFormat_AUTO :: string where
  "LoadFormat_AUTO = ''auto''"

definition LoadFormat_RUNAI_STREAMER :: string where
  "LoadFormat_RUNAI_STREAMER = ''runai_streamer''"

definition ALLOWED_DETAILED_TRACE_MODULES :: "string list" where
  "ALLOWED_DETAILED_TRACE_MODULES = [''model'', ''worker'', ''all'']"

subsection \<open>The configurations\<close>

record DeviceConfig =
  dev_device :: string

record ModelConfig =
  mc_model :: string
  mc_task :: string
  mc_tokenizer :: "string option"
  mc_dtype :: string
  mc_seed :: int
  mc_max_model_len :: int
  mc_quantization :: "string option"
  mc_use_async_output_proc :: bool
  mc_logits_processor_pattern :: "string option"
  mc_runner_type :: string
  mc_is_multimodal_model :: bool
  mc_use_mla :: bool
  mc_is_v1_compatible :: bool
  mc_architectures :: "string list"
  mc_sliding_window :: "int option"
  mc_is_attention_free :: bool

record CacheConfig =
  cc_block_size :: "int option"
  cc_cache_dtype :: string
  cc_is_attention_free :: bool
  cc_num_gpu_blocks_override :: "int option"
  cc_sliding_window :: "int option"
  cc_enable_prefix_caching :: "bool option"
  cc_use_v1 :: bool

record ParallelConfig =
  pc_pipeline_parallel_size :: int
  pc_tensor_parallel_size :: int
  pc_distributed_executor_backend :: "string option"
  pc_worker_cls :: string
  pc_use_ray :: bool

record SchedulerConfig =
  sch_runner_type :: string
  sch_max_num_batched_tokens :: "int option"
  sch_max_num_seqs :: "int option"
  sch_max_model_len :: int
  sch_num_lookahead_slots :: int
  sch_delay_factor :: real
  sch_enable_chunked_prefill :: "bool option"
  sch_is_multimodal_model :: bool
  sch_preemption_mode :: "string option"
  sch_num_scheduler_steps :: int
  sch_multi_step_stream_outputs :: bool
  sch_send_delta_data :: bool
  sch_policy :: string
  sch_scheduler_cls :: string
  sch_max_num_partial_prefills :: "int option"
  sch_max_long_partial_prefills :: "int option"
  sch_long_prefill_token_threshold :: "int option"

record LoRAConfig =
  lora_bias_enabled :: bool
  lora_max_lora_rank :: int
  lora_max_loras :: int
  lora_fully_sharded_loras :: bool
  lora_lora_extra_vocab_size :: int
  lora_lora_dtype :: "string option"
  lora_max_cpu_loras :: int

record LoadConfig =
  ld_load_format :: string
  ld_download_dir :: "string option"
  ld_model_loader_extra_config :: "(string \<times> string) list option"
  ld_ignore_patterns :: "string list option"

record PromptAdapterConfig =
  pa_max_prompt_adapters :: int
  pa_max_prompt_adapter_token :: int

record DecodingConfig =
  dec_guided_decoding_backend :: string
  dec_reasoning_backend :: "string option"

record ObservabilityConfig =
  obs_show_hidden_metrics :: bool
  obs_otlp_traces_endpoint :: "string option"
  obs_collect_model_forward_time :: bool
  obs_collect_model_execute_time :: bool

record VllmConfig =
  vc_model_config :: ModelConfig
  vc_cache_config :: CacheConfig
  vc_parallel_config :: ParallelConfig
  vc_scheduler_config :: SchedulerConfig
  vc_device_config :: DeviceConfig
  vc_lora_config :: "LoRAConfig option"
  vc_speculative_config :: "SpeculativeConfig option"
  vc_load_config :: LoadConfig
  vc_decoding_config :: DecodingConfig
  vc_observability_config :: ObservabilityConfig
  vc_prompt_adapter_config :: "PromptAdapterConfig option"
  vc_compilation_config :: "CompilationConfig option"
  vc_kv_transfer_config :: "KVTransferConfig option"
  vc_additional_config :: "(string \<times> string) list option"
  vc_use_v1 :: bool

text \<open>
  Modelled from the spec: the constructor of \<^verbatim>\<open>LoRAConfig\<close>, which is defined in
  \<^verbatim>\<open>vllm.config\<close> and is missing here. The specification says of it that
  \<^verbatim>\<open>max_cpu_loras\<close> defaults to \<^verbatim>\<open>max_loras\<close> when unset; this file passes
  \<^verbatim>\<open>None\<close> for an unset or non-positive value.
\<close>

definition LoRAConfig_init ::
  "bool \<Rightarrow> int \<Rightarrow> int \<Rightarrow> bool \<Rightarrow> int \<Rightarrow> string option \<Rightarrow> int option \<Rightarrow> LoRAConfig" where
  "LoRAConfig_init bias_enabled max_lora_rank_arg max_loras_arg fully_sharded extra_vocab
       dtype_arg max_cpu_loras_arg =
     \<lparr> lora_bias_enabled = bias_enabled,
       lora_max_lora_rank = max_lora_rank_arg,
       lora_max_loras = max_loras_arg,
       lora_fully_sharded_loras = fully_sharded,
       lora_lora_extra_vocab_size = extra_vocab,
       lora_lora_dtype = dtype_arg,
       lora_max_cpu_loras =
         (case max_cpu_loras_arg of None \<Rightarrow> max_loras_arg | Some n \<Rightarrow> n) \<rparr>"

subsection \<open>Building the model and load configurations\<close>

text \<open>Truthiness of an optional Boolean: \<^verbatim>\<open>None\<close> and \<^verbatim>\<open>False\<close> are false.\<close>

definition truthy_bool :: "bool option \<Rightarrow> bool" where
  "truthy_bool v = (v = Some True)"

text \<open>
  \<^verbatim>\<open>create_model_config\<close> changes \<^verbatim>\<open>self\<close> before it builds the configuration, so
  it returns the changed arguments as well.
\<close>

definition create_model_config ::
  "envs \<Rightarrow> collaborators \<Rightarrow> EngineArgs \<Rightarrow> (ModelConfig \<times> EngineArgs) result" where
  "create_model_config E X self0 =
     (let self1 = (if check_gguf_file X (model self0)
                   then self0\<lparr>quantization := Some ''gguf'', load_format := ''gguf''\<rparr>
                   else self0);
          self2 = (if \<not> is_AsyncEngineArgs self1 \<and> VLLM_CI_USE_S3 E
                      \<and> model self1 \<in> set (MODELS_ON_S3 X)
                      \<and> load_format self1 = LoadFormat_AUTO
                   then self1\<lparr>model := MODEL_WEIGHTS_S3_BUCKET X @ ''/'' @ model self1,
                              load_format := LoadFormat_RUNAI_STREAMER\<rparr>
                   else self1);
          D = model_derived X
      in bind (emit (Constructed ModelConfig_cls)) (\<lambda>_.
         ret (\<lparr> mc_model = model self2,
                 mc_task = resolved_task D,
                 mc_tokenizer = tokenizer self2,
                 mc_dtype = dtype self2,
                 mc_seed = seed self2,
                 mc_max_model_len = derived_max_model_len D,
                 mc_quantization = quantization self2,
                 mc_use_async_output_proc = (\<not> disable_async_output_proc self2),
                 mc_logits_processor_pattern = logits_processor_pattern self2,
                 mc_runner_type = runner_type D,
                 mc_is_multimodal_model = is_multimodal_model D,
                 mc_use_mla = use_mla D,
                 mc_is_v1_compatible = is_v1_compatible D,
                 mc_architectures = architectures D,
                 mc_sliding_window = get_sliding_window D,
                 mc_is_attention_free = is_attention_free D \<rparr>, self2)))"

definition create_load_config :: "EngineArgs \<Rightarrow> LoadConfig result" where
  "create_load_config self =
     (if (quantization self = Some ''bitsandbytes'' \<or> qlora_adapter_name_or_path self \<noteq> None)
         \<and> load_format self \<noteq> ''bitsandbytes''
      then raise (ValueError
             (''BitsAndBytes quantization and QLoRA adapter only support ''
              @ [CHR 0x27] @ ''bitsandbytes'' @ [CHR 0x27] @ '' load format, but got ''
              @ load_format self))
      else if (load_format self = ''bitsandbytes'' \<or> qlora_adapter_name_or_path self \<noteq> None)
         \<and> quantization self \<noteq> Some ''bitsandbytes''
      then raise (ValueError
             (''BitsAndBytes load format and QLoRA adapter only support ''
              @ [CHR 0x27] @ ''bitsandbytes'' @ [CHR 0x27] @ '' quantization, but got ''
              @ py_str (py_opt_str (quantization self))))
      else bind (emit (Constructed LoadConfig_cls)) (\<lambda>_.
           ret \<lparr> ld_load_format = load_format self,
                 ld_download_dir = download_dir self,
                 ld_model_loader_extra_config = model_loader_extra_config self,
                 ld_ignore_patterns = ignore_patterns self \<rparr>))"

subsection \<open>The notices and the oracle\<close>

definition raise_or_warning :: "envs \<Rightarrow> pyval \<Rightarrow> bool \<Rightarrow> unit result" where
  "raise_or_warning E feature_name recommend_to_remove =
     (if VLLM_USE_V1 E
      then raise (NotImplementedError
             (''VLLM_USE_V1=1 is not supported with '' @ py_str feature_name))
      else emit (Log WARNING
             (py_str feature_name @ '' is not supported by the V1 Engine. ''
              @ ''Falling back to V0. ''
              @ (if recommend_to_remove
                 then ''We recommend to remove '' @ py_str feature_name @ '' from your config''
                      @ ''in favor of the V1 Engine.''
                 else [])) []))"

definition experimental_warning :: "pyval \<Rightarrow> unit result" where
  "experimental_warning feature_name =
     emit (Log WARNING
       (''Detected VLLM_USE_V1=1 with %s. Usage should''
        @ ''be considered experimental. Please report any ''
        @ ''issues on Github.'') [feature_name])"

definition fallback_info :: "pyval \<Rightarrow> unit result" where
  "fallback_info feature_name =
     emit (Log INFO
       (''%s is experimental on VLLM_USE_V1=1. ''
        @ ''Falling back to V0 Engine.'') [feature_name])"

text \<open>
  A rule of the first two groups of the oracle: \<^verbatim>\<open>_raise_or_warning(...)\<close> followed by
  \<^verbatim>\<open>return False\<close>. A rule of the third group: the experimental warning when
  \<^verbatim>\<open>VLLM_USE_V1\<close> holds, after which the oracle goes on (value \<open>True\<close>), otherwise the
  fallback notice and \<^verbatim>\<open>return False\<close> (value \<open>False\<close>).
\<close>

definition unsupported :: "envs \<Rightarrow> pyval \<Rightarrow> bool \<Rightarrow> bool result" where
  "unsupported E feature_name recommend_to_remove =
     bind (raise_or_warning E feature_name recommend_to_remove) (\<lambda>_. ret False)"

definition experimental :: "envs \<Rightarrow> bool \<Rightarrow> pyval \<Rightarrow> bool result" where
  "experimental E applies feature_name =
     (if applies
      then (if VLLM_USE_V1 E
            then bind (experimental_warning feature_name) (\<lambda>_. ret True)
            else bind (fallback_info feature_name) (\<lambda>_. ret False))
      else ret True)"

definition is_v1_supported_oracle ::
  "envs \<Rightarrow> current_platform \<Rightarrow> EngineArgs \<Rightarrow> ModelConfig \<Rightarrow> bool result" where
  "is_v1_supported_oracle E P self model_config =
     (if logits_processor_pattern self \<noteq> logits_processor_pattern EngineArgs_cls
      then unsupported E (PyStr ''--logits-processor-pattern'') False
      else if preemption_mode self \<noteq> preemption_mode EngineArgs_cls
      then unsupported E (PyStr ''--preemption-mode'') True
      else if disable_async_output_proc self \<noteq> disable_async_output_proc EngineArgs_cls
      then unsupported E (PyStr ''--disable-async-output-proc'') True
      else if scheduling_policy self \<noteq> scheduling_policy EngineArgs_cls
      then unsupported E (PyStr ''--scheduling-policy'') False
      else if scheduler_cls self \<noteq> scheduler_cls EngineArgs_cls
      then unsupported E (PyStr ''--scheduler-cls'') False
      else if worker_cls self \<noteq> worker_cls EngineArgs_cls
      then unsupported E (PyStr ''--worker-cls'') False
      else if num_scheduler_steps self \<noteq> num_scheduler_steps EngineArgs_cls
      then unsupported E (PyStr ''--num-scheduler-steps'') True
      else if scheduler_delay_factor self \<noteq> scheduler_delay_factor EngineArgs_cls
      then unsupported E (PyStr ''--scheduler-delay-factor'') True
      else if additional_config self \<noteq> additional_config EngineArgs_cls
      then unsupported E (PyStr ''--additional-config'') False
      else if guided_decoding_backend self \<noteq> ''xgrammar''
      then unsupported E (PyStr ''--guided-decoding-backend'') False
      else if is_cuda P \<and> device_capability_major P < 8
      then unsupported E (PyStr ''Compute Capacity < 8.0'') False
      else if kv_cache_dtype self \<noteq> ''auto''
      then unsupported E (PyStr ''--kv-cache-dtype'') False
      else if enable_prompt_adapter self
      then unsupported E (PyStr ''--enable-prompt-adapter'') False
      else if mc_task model_config \<notin> set [''generate'']
      then unsupported E (PyStr (''--task '' @ mc_task model_config)) False
      else if \<not> mc_is_v1_compatible model_config
      then unsupported E (PyStrList (mc_architectures model_config)) False
      else if max_num_partial_prefills self \<noteq> max_num_partial_prefills EngineArgs_cls
            \<or> max_long_partial_prefills self \<noteq> max_long_partial_prefills EngineArgs_cls
            \<or> long_prefill_token_threshold self \<noteq> long_prefill_token_threshold EngineArgs_cls
      then unsupported E (PyStr ''Concurrent Partial Prefill'') False
      else if truthy_str (otlp_traces_endpoint self) \<or> truthy_str (collect_detailed_traces self)
      then unsupported E (PyStr ''--otlp-traces-endpoint'') False
      else if (speculative_model self \<noteq> None \<or> num_speculative_tokens self \<noteq> None)
            \<and> speculative_model self \<noteq> Some ''[ngram]''
      then unsupported E (PyStr ''Speculative Decoding'') False
      else if kv_transfer_config self \<noteq> kv_transfer_config EngineArgs_cls
      then unsupported E (PyStr ''--kv-transfer-config'') False
      else
        bind (experimental E (mc_use_mla model_config) (PyStr ''MLA'')) (\<lambda>go.
        if \<not> go then ret False else
        bind (experimental E (enable_lora self) (PyStr ''LoRA'')) (\<lambda>go.
        if \<not> go then ret False else
        bind (experimental E (pipeline_parallel_size self > 1) (PyStr ''Pipeline Parallel'')) (\<lambda>go.
        if \<not> go then ret False else
        bind (experimental E (speculative_model self = Some ''[ngram]'')
                (PyStr ''ngram Speculative Decoding'')) (\<lambda>go.
        if \<not> go then ret False else
        bind (experimental E (\<not> is_cuda P) (PyStr (device_type P))) (\<lambda>go.
        if \<not> go then ret False else ret True))))))"

subsection \<open>Defaults for the two engines\<close>

definition set_default_args_v0 ::
  "current_platform \<Rightarrow> EngineArgs \<Rightarrow> ModelConfig \<Rightarrow> EngineArgs result" where
  "set_default_args_v0 P self0 model_config =
     (let max_model_len_v = mc_max_model_len model_config;
          use_long_context = (max_model_len_v > 32768)
      in
      bind (if enable_chunked_prefill self0 = None
            then bind (if mc_is_multimodal_model model_config \<or> mc_use_mla model_config
                       then ret (self0\<lparr>enable_chunked_prefill := Some False\<rparr>)
                       else if use_long_context
                       then (let is_gpu = is_cuda P;
                                 use_sliding_window = (mc_sliding_window model_config \<noteq> None);
                                 use_spec_decode = (speculative_model self0 \<noteq> None)
                             in if is_gpu \<and> \<not> use_sliding_window \<and> \<not> use_spec_decode
                                   \<and> \<not> enable_lora self0 \<and> \<not> enable_prompt_adapter self0
                                   \<and> mc_runner_type model_config \<noteq> ''pooling''
                                then bind (emit (Log WARNING
                                       (''Chunked prefill is enabled by default for models ''
                                        @ ''with max_model_len > 32K. Chunked prefill might ''
                                        @ ''not work with some features or models. If you ''
                                        @ ''encounter any issues, please disable by launching''
                                        @ ''with --enable-chunked-prefill=False.'') []))
                                     (\<lambda>_. ret (self0\<lparr>enable_chunked_prefill := Some True\<rparr>))
                                else ret self0)
                       else ret self0)
                   (\<lambda>self. if enable_chunked_prefill self = None
                            then ret (self\<lparr>enable_chunked_prefill := Some False\<rparr>)
                            else ret self)
            else ret self0) (\<lambda>self1.
      bind (if \<not> truthy_bool (enable_chunked_prefill self1) \<and> use_long_context
            then emit (Log WARNING
                   (''The model has a long context length (%s). This may cause''
                    @ ''OOM during the initial memory profiling phase, or result ''
                    @ ''in low performance due to small KV cache size. Consider ''
                    @ ''setting --max-model-len to a smaller value.'') [PyInt max_model_len_v])
            else if truthy_bool (enable_chunked_prefill self1)
                    \<and> mc_runner_type model_config = ''pooling''
            then raise (ValueError ''Chunked prefill is not supported for pooling models'')
            else ret ()) (\<lambda>_.
      bind (if mc_is_multimodal_model model_config \<and> truthy_bool (enable_prefix_caching self1)
            then bind (emit (Log WARNING
                        (''--enable-prefix-caching is not supported for multimodal ''
                         @ ''models in V0 and has been disabled.'') []))
                      (\<lambda>_. ret (self1\<lparr>enable_prefix_caching := Some False\<rparr>))
            else ret self1) (\<lambda>self2.
      ret (if max_num_seqs self2 = None then self2\<lparr>max_num_seqs := Some 256\<rparr> else self2)))))"

text \<open>
  The value of a member of \<^verbatim>\<open>UsageContext\<close>, which reaches the debug messages only; the
  enumeration is declared in \<^verbatim>\<open>vllm.usage.usage_lib\<close>, and the value of each of the two
  members named here is taken to be its name.
\<close>

fun UsageContext_value :: "UsageContext \<Rightarrow> string" where
  "UsageContext_value LLM_CLASS = ''LLM_CLASS''"
| "UsageContext_value OPENAI_API_SERVER = ''OPENAI_API_SERVER''"
| "UsageContext_value (OTHER_USAGE v) = v"

definition set_default_args_v1 ::
  "current_platform \<Rightarrow> UsageContext option \<Rightarrow> EngineArgs \<Rightarrow> EngineArgs result" where
  "set_default_args_v1 P usage_context self0 =
     (let self1 = self0\<lparr>enable_chunked_prefill := Some True\<rparr>;
          device_name = py_lower (get_device_name P);
          default_max_num_batched_tokens =
            (if py_contains ''h100'' device_name \<or> py_contains ''h200'' device_name
             then [(LLM_CLASS, 16384 :: int), (OPENAI_API_SERVER, 8192)]
             else [(LLM_CLASS, 8192), (OPENAI_API_SERVER, 2048)]);
          use_context_value =
            (case usage_context of None \<Rightarrow> PyNone | Some u \<Rightarrow> PyStr (UsageContext_value u))
      in
      bind (case usage_context of
              None \<Rightarrow> ret self1
            | Some u \<Rightarrow>
                (case map_of default_max_num_batched_tokens u of
                   None \<Rightarrow> ret self1
                 | Some n \<Rightarrow>
                     if max_num_batched_tokens self1 = None
                     then bind (emit (Log DEBUG
                                 ''Setting max_num_batched_tokens to %d for %s usage context.''
                                 [PyInt n, use_context_value]))
                               (\<lambda>_. ret (self1\<lparr>max_num_batched_tokens := Some n\<rparr>))
                     else ret self1)) (\<lambda>self2.
      if max_num_seqs self2 = None
      then bind (emit (Log DEBUG ''Setting max_num_seqs to %d for %s usage context.''
                   [PyInt 1024, use_context_value]))
                (\<lambda>_. ret (self2\<lparr>max_num_seqs := Some 1024\<rparr>))
      else ret self2))"

subsection \<open>The resolution\<close>

text \<open>The loop over the detailed-trace modules: the first module that is not allowed raises.\<close>

fun check_detailed_trace_modules :: "string list \<Rightarrow> unit result" where
  "check_detailed_trace_modules [] = ret ()"
| "check_detailed_trace_modules (m # ms) =
     (if m \<notin> set ALLOWED_DETAILED_TRACE_MODULES
      then raise (ValueError
             (''Invalid module '' @ m @ '' in collect_detailed_traces. ''
              @ ''Valid modules are '' @ py_repr_list ALLOWED_DETAILED_TRACE_MODULES))
      else check_detailed_trace_modules ms)"

text \<open>
  \<^verbatim>\<open>create_engine_config\<close>, statement by statement. It returns the configuration and
  the arguments as it leaves them, since it assigns to fields of \<^verbatim>\<open>self\<close>.
\<close>

definition create_engine_config ::
  "envs \<Rightarrow> current_platform \<Rightarrow> collaborators \<Rightarrow> UsageContext option \<Rightarrow> EngineArgs
     \<Rightarrow> (VllmConfig \<times> EngineArgs) result" where
  "create_engine_config E P X usage_context self0 =
     bind (emit (Constructed DeviceConfig_cls)) (\<lambda>_.
     let device_config = \<lparr> dev_device = device self0 \<rparr> in
     bind (create_model_config E X self0) (\<lambda>(model_config, self1).
     bind (is_v1_supported_oracle E P self1 model_config) (\<lambda>supported.
     bind (if supported
           then (let try_by_default = (\<not> VLLM_USE_V1_is_set E \<and> VLLM_USE_V1_BY_DEFAULT E)
                 in if VLLM_USE_V1 E \<or> try_by_default then ret True
                    else bind (emit (Log INFO
                           (''===================================================''
                            @ [CHR 0x0A, CHR 0x0A]
                            @ ''Detected EngineConfig is compatible with VLLM V1''
                            @ ''Set VLLM_USE_V1=1 before launch to enable V1.''
                            @ [CHR 0x0A, CHR 0x0A]
                            @ ''=================================================='') []))
                         (\<lambda>_. ret False))
           else ret False) (\<lambda>use_v1.
     bind (if VLLM_USE_V1_is_set E \<and> use_v1 \<noteq> VLLM_USE_V1 E
           then raise AssertionError else ret ()) (\<lambda>_.
     bind (if use_v1 then set_default_args_v1 P usage_context self1
           else set_default_args_v0 P self1 model_config) (\<lambda>self2.
     bind (emit (Constructed CacheConfig_cls)) (\<lambda>_.
     let cache_config =
           \<lparr> cc_block_size = block_size self2,
             cc_cache_dtype = kv_cache_dtype self2,
             cc_is_attention_free = mc_is_attention_free model_config,
             cc_num_gpu_blocks_override = num_gpu_blocks_override self2,
             cc_sliding_window = mc_sliding_window model_config,
             cc_enable_prefix_caching = enable_prefix_caching self2,
             cc_use_v1 = use_v1 \<rparr> in
     bind (emit (Constructed ParallelConfig_cls)) (\<lambda>_.
     let parallel_config =
           \<lparr> pc_pipeline_parallel_size = pipeline_parallel_size self2,
             pc_tensor_parallel_size = tensor_parallel_size self2,
             pc_distributed_executor_backend = distributed_executor_backend self2,
             pc_worker_cls = worker_cls self2,
             pc_use_ray = use_ray X \<rparr> in
     bind (case maybe_create_spec_config X of
             None \<Rightarrow> ret None
           | Some sc \<Rightarrow> bind (emit (Constructed SpeculativeConfig_cls)) (\<lambda>_. ret (Some sc)))
       (\<lambda>speculative_config.
     bind (if num_scheduler_steps self2 > 1
           then (if speculative_config \<noteq> None
                 then raise (ValueError
                        (''Speculative decoding is not supported with ''
                         @ ''multi-step (--num-scheduler-steps > 1)''))
                 else if truthy_bool (enable_chunked_prefill self2)
                         \<and> pipeline_parallel_size self2 > 1
                 then raise (ValueError
                        (''Multi-Step Chunked-Prefill is not supported ''
                         @ ''for pipeline-parallel-size > 1''))
                 else if is_cpu P
                 then bind (emit (Log WARNING
                              (''Multi-Step (--num-scheduler-steps > 1) is ''
                               @ ''currently not supported for CPUs and has been ''
                               @ ''disabled.'') []))
                           (\<lambda>_. ret (self2\<lparr>num_scheduler_steps := 1\<rparr>))
                 else ret self2)
           else ret self2) (\<lambda>self3.
     let num_lookahead_slots_multi =
           max (num_lookahead_slots self3) (num_scheduler_steps self3 - 1);
         num_lookahead_slots_v =
           (case speculative_config of
              None \<Rightarrow> num_lookahead_slots_multi
            | Some sc \<Rightarrow> spec_num_lookahead_slots sc) in
     bind (emit (Constructed SchedulerConfig_cls)) (\<lambda>_.
     let scheduler_config =
           \<lparr> sch_runner_type = mc_runner_type model_config,
             sch_max_num_batched_tokens = max_num_batched_tokens self3,
             sch_max_num_seqs = max_num_seqs self3,
             sch_max_model_len = mc_max_model_len model_config,
             sch_num_lookahead_slots = num_lookahead_slots_v,
             sch_delay_factor = scheduler_delay_factor self3,
             sch_enable_chunked_prefill = enable_chunked_prefill self3,
             sch_is_multimodal_model = mc_is_multimodal_model model_config,
             sch_preemption_mode = preemption_mode self3,
             sch_num_scheduler_steps = num_scheduler_steps self3,
             sch_multi_step_stream_outputs = multi_step_stream_outputs self3,
             sch_send_delta_data = (VLLM_USE_RAY_SPMD_WORKER E \<and> pc_use_ray parallel_config),
             sch_policy = scheduling_policy self3,
             sch_scheduler_cls = scheduler_cls self3,
             sch_max_num_partial_prefills = max_num_partial_prefills self3,
             sch_max_long_partial_prefills = max_long_partial_prefills self3,
             sch_long_prefill_token_threshold = long_prefill_token_threshold self3 \<rparr> in
     bind (if enable_lora self3
           then bind (emit (Constructed LoRAConfig_cls)) (\<lambda>_.
                ret (Some (LoRAConfig_init
                       (enable_lora_bias self3) (max_lora_rank self3) (max_loras self3)
                       (fully_sharded_loras self3) (lora_extra_vocab_size self3)
                       (lora_dtype self3)
                       (case max_cpu_loras self3 of
                          None \<Rightarrow> None
                        | Some n \<Rightarrow> if n \<noteq> 0 \<and> n > 0 then Some n else None))))
           else ret None) (\<lambda>lora_config.
     let self4 =
           (case qlora_adapter_name_or_path self3 of
              None \<Rightarrow> self3
            | Some path \<Rightarrow>
                if path \<noteq> []
                then self3\<lparr>model_loader_extra_config :=
                       Some (AList.update ''qlora_adapter_name_or_path'' path
                              (case model_loader_extra_config self3 of
                                 None \<Rightarrow> [] | Some d \<Rightarrow> d))\<rparr>
                else self3) in
     bind (create_load_config self4) (\<lambda>load_config.
     bind (if enable_prompt_adapter self4
           then bind (emit (Constructed PromptAdapterConfig_cls)) (\<lambda>_.
                ret (Some \<lparr> pa_max_prompt_adapters = max_prompt_adapters self4,
                            pa_max_prompt_adapter_token = max_prompt_adapter_token self4 \<rparr>))
           else ret None) (\<lambda>prompt_adapter_config.
     bind (emit (Constructed DecodingConfig_cls)) (\<lambda>_.
     let decoding_config =
           \<lparr> dec_guided_decoding_backend = guided_decoding_backend self4,
             dec_reasoning_backend =
               (if truthy_bool (enable_reasoning self4) then reasoning_parser self4 else None) \<rparr>;
         show_hidden_metrics =
           (case show_hidden_metrics_for_version self4 of
              None \<Rightarrow> False
            | Some v \<Rightarrow> prev_minor_version_was X v);
         detailed_trace_modules =
           (case collect_detailed_traces self4 of
              None \<Rightarrow> []
            | Some traces \<Rightarrow> py_split CHR '','' traces) in
     bind (check_detailed_trace_modules detailed_trace_modules) (\<lambda>_.
     bind (emit (Constructed ObservabilityConfig_cls)) (\<lambda>_.
     let observability_config =
           \<lparr> obs_show_hidden_metrics = show_hidden_metrics,
             obs_otlp_traces_endpoint = otlp_traces_endpoint self4,
             obs_collect_model_forward_time =
               (''model'' \<in> set detailed_trace_modules \<or> ''all'' \<in> set detailed_trace_modules),
             obs_collect_model_execute_time =
               (''worker'' \<in> set detailed_trace_modules \<or> ''all'' \<in> set detailed_trace_modules) \<rparr> in
     bind (emit (Constructed VllmConfig_cls)) (\<lambda>_.
     ret (\<lparr> vc_model_config = model_config,
             vc_cache_config = cache_config,
             vc_parallel_config = parallel_config,
             vc_scheduler_config = scheduler_config,
             vc_device_config = device_config,
             vc_lora_config = lora_config,
             vc_speculative_config = speculative_config,
             vc_load_config = load_config,
             vc_decoding_config = decoding_config,
             vc_observability_config = observability_config,
             vc_prompt_adapter_config = prompt_adapter_config,
             vc_compilation_config = compilation_config self4,
             vc_kv_transfer_config = kv_transfer_config self4,
             vc_additional_config = additional_config self4,
             vc_use_v1 = use_v1 \<rparr>, self4)))))))))))))))))))"

text \<open>
  The blocks and tails of \<^verbatim>\<open>create_engine_config\<close> under names of their own, so that each can
  be reasoned about separately; \<open>create_engine_config_blocks\<close> below shows that they make up
  the function.
\<close>

definition choose_use_v1 :: "envs \<Rightarrow> bool \<Rightarrow> bool result" where
  "choose_use_v1 E supported =
     (if supported
      then (let try_by_default = (\<not> VLLM_USE_V1_is_set E \<and> VLLM_USE_V1_BY_DEFAULT E)
            in if VLLM_USE_V1 E \<or> try_by_default then ret True
               else bind (emit (Log INFO
                      (''===================================================''
                       @ [CHR 0x0A, CHR 0x0A]
                       @ ''Detected EngineConfig is compatible with VLLM V1''
                       @ ''Set VLLM_USE_V1=1 before launch to enable V1.''
                       @ [CHR 0x0A, CHR 0x0A]
                       @ ''=================================================='') []))
                    (\<lambda>_. ret False))
      else ret False)"

definition assert_use_v1 :: "envs \<Rightarrow> bool \<Rightarrow> unit result" where
  "assert_use_v1 E use_v1 =
     (if VLLM_USE_V1_is_set E \<and> use_v1 \<noteq> VLLM_USE_V1 E
           then raise AssertionError else ret ())"

definition check_multi_step ::
  "current_platform \<Rightarrow> SpeculativeConfig option \<Rightarrow> EngineArgs \<Rightarrow> EngineArgs result" where
  "check_multi_step P speculative_config self2 =
     (if num_scheduler_steps self2 > 1
      then (if speculative_config \<noteq> None
            then raise (ValueError
                   (''Speculative decoding is not supported with ''
                    @ ''multi-step (--num-scheduler-steps > 1)''))
            else if truthy_bool (enable_chunked_prefill self2)
                    \<and> pipeline_parallel_size self2 > 1
            then raise (ValueError
                   (''Multi-Step Chunked-Prefill is not supported ''
                    @ ''for pipeline-parallel-size > 1''))
            else if is_cpu P
            then bind (emit (Log WARNING
                         (''Multi-Step (--num-scheduler-steps > 1) is ''
                          @ ''currently not supported for CPUs and has been ''
                          @ ''disabled.'') []))
                      (\<lambda>_. ret (self2\<lparr>num_scheduler_steps := 1\<rparr>))
            else ret self2)
      else ret self2)"

definition build_from_load ::
  "collaborators \<Rightarrow> DeviceConfig \<Rightarrow> ModelConfig \<Rightarrow> CacheConfig \<Rightarrow> ParallelConfig
     \<Rightarrow> SchedulerConfig \<Rightarrow> LoRAConfig option \<Rightarrow> bool \<Rightarrow> SpeculativeConfig option
     \<Rightarrow> EngineArgs \<Rightarrow> (VllmConfig \<times> EngineArgs) result" where
  "build_from_load X device_config model_config cache_config parallel_config scheduler_config
       lora_config use_v1 speculative_config self4 =
     bind (create_load_config self4) (\<lambda>load_config.
     bind (if enable_prompt_adapter self4
           then bind (emit (Constructed PromptAdapterConfig_cls)) (\<lambda>_.
                ret (Some \<lparr> pa_max_prompt_adapters = max_prompt_adapters self4,
                            pa_max_prompt_adapter_token = max_prompt_adapter_token self4 \<rparr>))
           else ret None) (\<lambda>prompt_adapter_config.
     bind (emit (Constructed DecodingConfig_cls)) (\<lambda>_.
     let decoding_config =
           \<lparr> dec_guided_decoding_backend = guided_decoding_backend self4,
             dec_reasoning_backend =
               (if truthy_bool (enable_reasoning self4) then reasoning_parser self4 else None) \<rparr>;
         show_hidden_metrics =
           (case show_hidden_metrics_for_version self4 of
              None \<Rightarrow> False
            | Some v \<Rightarrow> prev_minor_version_was X v);
         detailed_trace_modules =
           (case collect_detailed_traces self4 of
              None \<Rightarrow> []
            | Some traces \<Rightarrow> py_split CHR '','' traces) in
     bind (check_detailed_trace_modules detailed_trace_modules) (\<lambda>_.
     bind (emit (Constructed ObservabilityConfig_cls)) (\<lambda>_.
     let observability_config =
           \<lparr> obs_show_hidden_metrics = show_hidden_metrics,
             obs_otlp_traces_endpoint = otlp_traces_endpoint self4,
             obs_collect_model_forward_time =
               (''model'' \<in> set detailed_trace_modules \<or> ''all'' \<in> set detailed_trace_modules),
             obs_collect_model_execute_time =
               (''worker'' \<in> set detailed_trace_modules \<or> ''all'' \<in> set detailed_trace_modules) \<rparr> in
     bind (emit (Constructed VllmConfig_cls)) (\<lambda>_.
     ret (\<lparr> vc_model_config = model_config,
             vc_cache_config = cache_config,
             vc_parallel_config = parallel_config,
             vc_scheduler_config = scheduler_config,
             vc_device_config = device_config,
             vc_lora_config = lora_config,
             vc_speculative_config = speculative_config,
             vc_load_config = load_config,
             vc_decoding_config = decoding_config,
             vc_observability_config = observability_config,
             vc_prompt_adapter_config = prompt_adapter_config,
             vc_compilation_config = compilation_config self4,
             vc_kv_transfer_config = kv_transfer_config self4,
             vc_additional_config = additional_config self4,
             vc_use_v1 = use_v1 \<rparr>, self4)))))))"

definition build_from_scheduler ::
  "envs \<Rightarrow> collaborators \<Rightarrow> DeviceConfig \<Rightarrow> ModelConfig \<Rightarrow> CacheConfig \<Rightarrow> ParallelConfig
     \<Rightarrow> bool \<Rightarrow> SpeculativeConfig option \<Rightarrow> EngineArgs
     \<Rightarrow> (VllmConfig \<times> EngineArgs) result" where
  "build_from_scheduler E X device_config model_config cache_config parallel_config use_v1
       speculative_config self3 =
    (let num_lookahead_slots_multi =
           max (num_lookahead_slots self3) (num_scheduler_steps self3 - 1);
         num_lookahead_slots_v =
           (case speculative_config of
              None \<Rightarrow> num_lookahead_slots_multi
            | Some sc \<Rightarrow> spec_num_lookahead_slots sc) in
     bind (emit (Constructed SchedulerConfig_cls)) (\<lambda>_.
     let scheduler_config =
           \<lparr> sch_runner_type = mc_runner_type model_config,
             sch_max_num_batched_tokens = max_num_batched_tokens self3,
             sch_max_num_seqs = max_num_seqs self3,
             sch_max_model_len = mc_max_model_len model_config,
             sch_num_lookahead_slots = num_lookahead_slots_v,
             sch_delay_factor = scheduler_delay_factor self3,
             sch_enable_chunked_prefill = enable_chunked_prefill self3,
             sch_is_multimodal_model = mc_is_multimodal_model model_config,
             sch_preemption_mode = preemption_mode self3,
             sch_num_scheduler_steps = num_scheduler_steps self3,
             sch_multi_step_stream_outputs = multi_step_stream_outputs self3,
             sch_send_delta_data = (VLLM_USE_RAY_SPMD_WORKER E \<and> pc_use_ray parallel_config),
             sch_policy = scheduling_policy self3,
             sch_scheduler_cls = scheduler_cls self3,
             sch_max_num_partial_prefills = max_num_partial_prefills self3,
             sch_max_long_partial_prefills = max_long_partial_prefills self3,
             sch_long_prefill_token_threshold = long_prefill_token_threshold self3 \<rparr> in
     bind (if enable_lora self3
           then bind (emit (Constructed LoRAConfig_cls)) (\<lambda>_.
                ret (Some (LoRAConfig_init
                       (enable_lora_bias self3) (max_lora_rank self3) (max_loras self3)
                       (fully_sharded_loras self3) (lora_extra_vocab_size self3)
                       (lora_dtype self3)
                       (case max_cpu_loras self3 of
                          None \<Rightarrow> None
                        | Some n \<Rightarrow> if n \<noteq> 0 \<and> n > 0 then Some n else None))))
           else ret None) (\<lambda>lora_config.
     let self4 =
           (case qlora_adapter_name_or_path self3 of
              None \<Rightarrow> self3
            | Some path \<Rightarrow>
                if path \<noteq> []
                then self3\<lparr>model_loader_extra_config :=
                       Some (AList.update ''qlora_adapter_name_or_path'' path
                              (case model_loader_extra_config self3 of
                                 None \<Rightarrow> [] | Some d \<Rightarrow> d))\<rparr>
                else self3) in
     build_from_load X device_config model_config cache_config parallel_config scheduler_config
       lora_config use_v1 speculative_config self4)))"

definition build_from_cache ::
  "envs \<Rightarrow> current_platform \<Rightarrow> collaborators \<Rightarrow> DeviceConfig \<Rightarrow> ModelConfig \<Rightarrow> bool
     \<Rightarrow> EngineArgs \<Rightarrow> (VllmConfig \<times> EngineArgs) result" where
  "build_from_cache E P X device_config model_config use_v1 self2 =
     bind (emit (Constructed CacheConfig_cls)) (\<lambda>_.
     let cache_config =
           \<lparr> cc_block_size = block_size self2,
             cc_cache_dtype = kv_cache_dtype self2,
             cc_is_attention_free = mc_is_attention_free model_config,
             cc_num_gpu_blocks_override = num_gpu_blocks_override self2,
             cc_sliding_window = mc_sliding_window model_config,
             cc_enable_prefix_caching = enable_prefix_caching self2,
             cc_use_v1 = use_v1 \<rparr> in
     bind (emit (Constructed ParallelConfig_cls)) (\<lambda>_.
     let parallel_config =
           \<lparr> pc_pipeline_parallel_size = pipeline_parallel_size self2,
             pc_tensor_parallel_size = tensor_parallel_size self2,
             pc_distributed_executor_backend = distributed_executor_backend self2,
             pc_worker_cls = worker_cls self2,
             pc_use_ray = use_ray X \<rparr> in
     bind (case maybe_create_spec_config X of
             None \<Rightarrow> ret None
           | Some sc \<Rightarrow> bind (emit (Constructed SpeculativeConfig_cls)) (\<lambda>_. ret (Some sc)))
       (\<lambda>speculative_config.
     bind (check_multi_step P speculative_config self2) (\<lambda>self3.
     build_from_scheduler E X device_config model_config cache_config parallel_config use_v1
       speculative_config self3))))"


text \<open>
  The value that the choice of the engine gives to \<^verbatim>\<open>use_v1\<close>, and the third group of
  rules of the oracle (the experimental features) as a block of its own.
\<close>

definition chosen_v1 :: "envs \<Rightarrow> bool \<Rightarrow> bool" where
  "chosen_v1 E supported =
     (supported \<and> (VLLM_USE_V1 E \<or> \<not> VLLM_USE_V1_is_set E \<and> VLLM_USE_V1_BY_DEFAULT E))"

definition oracle_experimental ::
  "envs \<Rightarrow> current_platform \<Rightarrow> EngineArgs \<Rightarrow> ModelConfig \<Rightarrow> bool result" where
  "oracle_experimental E P self model_config =
        bind (experimental E (mc_use_mla model_config) (PyStr ''MLA'')) (\<lambda>go.
        if \<not> go then ret False else
        bind (experimental E (enable_lora self) (PyStr ''LoRA'')) (\<lambda>go.
        if \<not> go then ret False else
        bind (experimental E (pipeline_parallel_size self > 1) (PyStr ''Pipeline Parallel'')) (\<lambda>go.
        if \<not> go then ret False else
        bind (experimental E (speculative_model self = Some ''[ngram]'')
                (PyStr ''ngram Speculative Decoding'')) (\<lambda>go.
        if \<not> go then ret False else
        bind (experimental E (\<not> is_cuda P) (PyStr (device_type P))) (\<lambda>go.
        if \<not> go then ret False else ret True)))))"

text \<open>The list \<^verbatim>\<open>detailed_trace_modules\<close> that \<^verbatim>\<open>create_engine_config\<close> computes.\<close>

definition trace_modules :: "EngineArgs \<Rightarrow> string list" where
  "trace_modules self =
     (case collect_detailed_traces self of None \<Rightarrow> [] | Some traces \<Rightarrow> py_split CHR '','' traces)"

subsection \<open>Concrete surroundings and inputs\<close>

text \<open>
  Three settings of the environment (the override \<^verbatim>\<open>VLLM_USE_V1\<close> unset with the
  default-on policy active, forced to 1, forced to 0), a CUDA and a CPU platform, a
  generative and a pooling model, and collaborators that answer for them.
\<close>

definition env_unset :: envs where
  "env_unset = \<lparr> VLLM_USE_V1 = False, VLLM_USE_V1_is_set = False,
     VLLM_USE_V1_BY_DEFAULT = True, VLLM_CI_USE_S3 = False,
     VLLM_USE_RAY_SPMD_WORKER = False \<rparr>"

definition env_forced_v1 :: envs where
  "env_forced_v1 = \<lparr> VLLM_USE_V1 = True, VLLM_USE_V1_is_set = True,
     VLLM_USE_V1_BY_DEFAULT = True, VLLM_CI_USE_S3 = False,
     VLLM_USE_RAY_SPMD_WORKER = False \<rparr>"


definition cuda_platform :: current_platform where
  "cuda_platform = \<lparr> is_cuda = True, is_cpu = False, device_capability_major = 9,
     get_device_name = ''NVIDIA H100 80GB HBM3'', device_type = ''cuda'' \<rparr>"

definition cpu_platform :: current_platform where
  "cpu_platform = \<lparr> is_cuda = False, is_cpu = True, device_capability_major = 0,
     get_device_name = ''cpu'', device_type = ''cpu'' \<rparr>"

definition generative_model :: model_props where
  "generative_model = \<lparr> resolved_task = ''generate'', runner_type = ''generate'',
     is_multimodal_model = False, use_mla = False, is_v1_compatible = True,
     architectures = [''OPTForCausalLM''], derived_max_model_len = 2048,
     get_sliding_window = None, is_attention_free = False \<rparr>"

definition pooling_model :: model_props where
  "pooling_model = \<lparr> resolved_task = ''embed'', runner_type = ''pooling'',
     is_multimodal_model = False, use_mla = False, is_v1_compatible = True,
     architectures = [''BertModel''], derived_max_model_len = 512,
     get_sliding_window = None, is_attention_free = False \<rparr>"

definition plain_collaborators :: collaborators where
  "plain_collaborators = \<lparr> check_gguf_file = (\<lambda>_. False), MODELS_ON_S3 = [],
     MODEL_WEIGHTS_S3_BUCKET = ''s3://vllm-ci-model-weights'',
     prev_minor_version_was = (\<lambda>_. False), model_derived = generative_model,
     maybe_create_spec_config = None, use_ray = False \<rparr>"

definition draft_five :: SpeculativeConfig where
  "draft_five = \<lparr> spec_draft_model = ''draft'', spec_num_lookahead_slots = 5 \<rparr>"

text \<open>The arguments with every field at its default, after \<^verbatim>\<open>__post_init__\<close>.\<close>

definition default_args :: EngineArgs where
  "default_args = post_init EngineArgs_cls"

section \<open>Properties\<close>

subsection \<open>The blocks make up the function\<close>

lemma create_engine_config_blocks:
  "create_engine_config E P X usage_context self0 =
     bind (emit (Constructed DeviceConfig_cls)) (\<lambda>_.
     bind (create_model_config E X self0) (\<lambda>(model_config, self1).
     bind (is_v1_supported_oracle E P self1 model_config) (\<lambda>supported.
     bind (choose_use_v1 E supported) (\<lambda>use_v1.
     bind (assert_use_v1 E use_v1) (\<lambda>_.
     bind (if use_v1 then set_default_args_v1 P usage_context self1
           else set_default_args_v0 P self1 model_config) (\<lambda>self2.
     build_from_cache E P X \<lparr> dev_device = device self0 \<rparr> model_config use_v1 self2))))))"
  unfolding create_engine_config_def build_from_cache_def build_from_scheduler_def
    build_from_load_def check_multi_step_def assert_use_v1_def choose_use_v1_def Let_def
  by (rule refl)

subsection \<open>The stages of the resolution\<close>

lemma constructed_simps:
  "constructed [] = []"
  "constructed (Constructed k # evs) = k # constructed evs"
  "constructed (Log l f as # evs) = constructed evs"
  "constructed (evs @ evs') = constructed evs @ constructed evs'"
  by (simp_all add: constructed_def)

lemma check_detailed_trace_modules_cases:
  "check_detailed_trace_modules ms = ([], Inr ()) \<and> set ms \<subseteq> set ALLOWED_DETAILED_TRACE_MODULES
   \<or> (\<exists>pre m post. ms = pre @ m # post \<and> set pre \<subseteq> set ALLOWED_DETAILED_TRACE_MODULES
         \<and> m \<notin> set ALLOWED_DETAILED_TRACE_MODULES
         \<and> check_detailed_trace_modules ms =
             ([], Inl (ValueError (''Invalid module '' @ m @ '' in collect_detailed_traces. ''
                @ ''Valid modules are '' @ py_repr_list ALLOWED_DETAILED_TRACE_MODULES))))"
proof (induction ms)
  case Nil
  show ?case by (simp add: ret_def)
next
  case (Cons x xs)
  show ?case
  proof (cases "x \<in> set ALLOWED_DETAILED_TRACE_MODULES")
    case False
    then have "x # xs = [] @ x # xs \<and> set [] \<subseteq> set ALLOWED_DETAILED_TRACE_MODULES
      \<and> x \<notin> set ALLOWED_DETAILED_TRACE_MODULES
      \<and> check_detailed_trace_modules (x # xs) =
             ([], Inl (ValueError (''Invalid module '' @ x @ '' in collect_detailed_traces. ''
                @ ''Valid modules are '' @ py_repr_list ALLOWED_DETAILED_TRACE_MODULES)))"
      by (simp add: raise_def)
    then show ?thesis by blast
  next
    case True
    from Cons.IH show ?thesis
    proof
      assume "check_detailed_trace_modules xs = ([], Inr ()) \<and> set xs \<subseteq> set ALLOWED_DETAILED_TRACE_MODULES"
      with True show ?thesis by simp
    next
      assume "\<exists>pre m post. xs = pre @ m # post \<and> set pre \<subseteq> set ALLOWED_DETAILED_TRACE_MODULES
         \<and> m \<notin> set ALLOWED_DETAILED_TRACE_MODULES
         \<and> check_detailed_trace_modules xs =
             ([], Inl (ValueError (''Invalid module '' @ m @ '' in collect_detailed_traces. ''
                @ ''Valid modules are '' @ py_repr_list ALLOWED_DETAILED_TRACE_MODULES)))"
      then obtain pre m post where h: "xs = pre @ m # post" "set pre \<subseteq> set ALLOWED_DETAILED_TRACE_MODULES"
         "m \<notin> set ALLOWED_DETAILED_TRACE_MODULES"
         "check_detailed_trace_modules xs =
             ([], Inl (ValueError (''Invalid module '' @ m @ '' in collect_detailed_traces. ''
                @ ''Valid modules are '' @ py_repr_list ALLOWED_DETAILED_TRACE_MODULES)))" by blast
      with True have "x # xs = (x # pre) @ m # post \<and> set (x # pre) \<subseteq> set ALLOWED_DETAILED_TRACE_MODULES
         \<and> m \<notin> set ALLOWED_DETAILED_TRACE_MODULES
         \<and> check_detailed_trace_modules (x # xs) =
             ([], Inl (ValueError (''Invalid module '' @ m @ '' in collect_detailed_traces. ''
                @ ''Valid modules are '' @ py_repr_list ALLOWED_DETAILED_TRACE_MODULES)))"
        by simp
      then show ?thesis by blast
    qed
  qed
qed

lemma create_load_config_cases:
  "(\<exists>msg. create_load_config a = ([], Inl (ValueError msg)))
   \<or> (\<exists>ld. create_load_config a = ([Constructed LoadConfig_cls], Inr ld))"
  by (simp add: create_load_config_def raise_def bind_def emit_def ret_def)

lemma build_from_load_cases:
  assumes "build_from_load X dc mc cc pc sc lc v spec a4 = (evs, r)"
  shows "(\<exists>msg. create_load_config a4 = ([], Inl (ValueError msg)) \<and> evs = [] \<and> r = Inl (ValueError msg))
   \<or> (\<exists>e. check_detailed_trace_modules (trace_modules a4) = ([], Inl e) \<and> r = Inl e
         \<and> constructed evs = LoadConfig_cls
              # (if enable_prompt_adapter a4 then [PromptAdapterConfig_cls] else [])
              @ [DecodingConfig_cls])
   \<or> (\<exists>ld cfg. create_load_config a4 = ([Constructed LoadConfig_cls], Inr ld)
         \<and> check_detailed_trace_modules (trace_modules a4) = ([], Inr ())
         \<and> r = Inr (cfg, a4)
         \<and> vc_model_config cfg = mc \<and> vc_scheduler_config cfg = sc \<and> vc_lora_config cfg = lc
         \<and> vc_speculative_config cfg = spec \<and> vc_use_v1 cfg = v \<and> vc_load_config cfg = ld
         \<and> constructed evs = LoadConfig_cls
              # (if enable_prompt_adapter a4 then [PromptAdapterConfig_cls] else [])
              @ [DecodingConfig_cls, ObservabilityConfig_cls, VllmConfig_cls])"
proof -
  from create_load_config_cases [of a4] show ?thesis
  proof
    assume "\<exists>msg. create_load_config a4 = ([], Inl (ValueError msg))"
    then obtain msg where "create_load_config a4 = ([], Inl (ValueError msg))" by blast
    with assms show ?thesis
      by (simp add: build_from_load_def bind_def)
  next
    assume "\<exists>ld. create_load_config a4 = ([Constructed LoadConfig_cls], Inr ld)"
    then obtain ld where ld: "create_load_config a4 = ([Constructed LoadConfig_cls], Inr ld)" by blast
    from check_detailed_trace_modules_cases [of "trace_modules a4"]
    consider (ok) "check_detailed_trace_modules (trace_modules a4) = ([], Inr ())"
      | (bad) e where "check_detailed_trace_modules (trace_modules a4) = ([], Inl e)"
      by blast
    then show ?thesis
    proof cases
      case ok
      with assms ld show ?thesis
        unfolding build_from_load_def Let_def trace_modules_def [symmetric]
        by (auto simp: bind_def emit_def ret_def constructed_simps)
    next
      case bad
      with assms ld show ?thesis
        unfolding build_from_load_def Let_def trace_modules_def [symmetric]
        by (auto simp: bind_def emit_def ret_def constructed_simps)
    qed
  qed
qed


lemma build_from_scheduler_cases:
  assumes "build_from_scheduler E X dc mc cc pc v spec a3 = (evs, r)"
  shows "\<exists>evs' sc lc a4. build_from_load X dc mc cc pc sc lc v spec a4 = (evs', r)
     \<and> constructed evs = SchedulerConfig_cls
          # (if enable_lora a3 then [LoRAConfig_cls] else []) @ constructed evs'
     \<and> sch_num_lookahead_slots sc =
          (case spec of None \<Rightarrow> max (num_lookahead_slots a3) (num_scheduler_steps a3 - 1)
           | Some s \<Rightarrow> spec_num_lookahead_slots s)
     \<and> sch_num_scheduler_steps sc = num_scheduler_steps a3
     \<and> sch_enable_chunked_prefill sc = enable_chunked_prefill a3
     \<and> lc = (if enable_lora a3
              then Some (LoRAConfig_init (enable_lora_bias a3) (max_lora_rank a3) (max_loras a3)
                     (fully_sharded_loras a3) (lora_extra_vocab_size a3) (lora_dtype a3)
                     (case max_cpu_loras a3 of None \<Rightarrow> None
                      | Some n \<Rightarrow> if n \<noteq> 0 \<and> n > 0 then Some n else None))
              else None)
     \<and> a4 = a3\<lparr>model_loader_extra_config := model_loader_extra_config a4\<rparr>"
  using assms unfolding build_from_scheduler_def Let_def
  apply (cases "enable_lora a3"; cases "qlora_adapter_name_or_path a3")
     apply (simp_all add: bind_def emit_def ret_def split: prod.splits if_splits)
     apply (safe; (intro exI conjI)?, assumption, simp_all add: constructed_simps)+
  done

lemma check_multi_step_cases:
  assumes "check_multi_step P spec a2 = (evs, r)"
  shows "constructed evs = []
     \<and> (if num_scheduler_steps a2 > 1 \<and> spec \<noteq> None
         then r = Inl (ValueError
                 ''Speculative decoding is not supported with multi-step (--num-scheduler-steps > 1)'')
         else if num_scheduler_steps a2 > 1 \<and> truthy_bool (enable_chunked_prefill a2)
                 \<and> pipeline_parallel_size a2 > 1
         then r = Inl (ValueError
                 ''Multi-Step Chunked-Prefill is not supported for pipeline-parallel-size > 1'')
         else r = Inr (if num_scheduler_steps a2 > 1 \<and> is_cpu P
                       then a2\<lparr>num_scheduler_steps := 1\<rparr> else a2))"
  using assms unfolding check_multi_step_def
  by (auto simp: bind_def emit_def ret_def raise_def constructed_simps split: if_splits)

lemma build_from_cache_cases:
  assumes "build_from_cache E P X dc mc v a2 = (evs, r)"
  shows "\<exists>evs' evs'' r' cc pc.
       check_multi_step P (maybe_create_spec_config X) a2 = (evs', r')
     \<and> (case r' of
           Inl e \<Rightarrow> r = Inl e \<and> evs'' = []
         | Inr a3 \<Rightarrow> build_from_scheduler E X dc mc cc pc v (maybe_create_spec_config X) a3 = (evs'', r))
     \<and> constructed evs = [CacheConfig_cls, ParallelConfig_cls]
          @ (if maybe_create_spec_config X \<noteq> None then [SpeculativeConfig_cls] else [])
          @ constructed evs''"
proof -
  obtain evs' r' where ms: "check_multi_step P (maybe_create_spec_config X) a2 = (evs', r')"
    by (cases "check_multi_step P (maybe_create_spec_config X) a2")
  from check_multi_step_cases [OF ms] have c: "constructed evs' = []" by blast
  show ?thesis
  proof (cases r')
    case (Inl e)
    with assms ms c show ?thesis
      unfolding build_from_cache_def Let_def
      by (cases "maybe_create_spec_config X")
         (auto simp: bind_def emit_def ret_def constructed_simps split: prod.splits)
  next
    case (Inr a3)
    with assms ms c show ?thesis
      unfolding build_from_cache_def Let_def
      apply (cases "maybe_create_spec_config X")
       apply (simp_all add: bind_def emit_def ret_def split: prod.splits)
       apply (safe; (intro exI conjI)?, assumption, simp_all add: constructed_simps)+
      done
  qed
qed

lemma unsupported_eq:
  "unsupported E f rm =
     (if VLLM_USE_V1 E
      then ([], Inl (NotImplementedError (''VLLM_USE_V1=1 is not supported with '' @ py_str f)))
      else ([Log WARNING
               (py_str f @ '' is not supported by the V1 Engine. '' @ ''Falling back to V0. ''
                @ (if rm then ''We recommend to remove '' @ py_str f @ '' from your config''
                              @ ''in favor of the V1 Engine.'' else [])) []], Inr False))"
  by (simp add: unsupported_def raise_or_warning_def bind_def raise_def emit_def ret_def)

lemma experimental_step:
  assumes "bind (experimental E c f) (\<lambda>go. if \<not> go then ret False else k) = (evs, r)"
    and "\<And>evs' r'. k = (evs', r') \<Longrightarrow>
           constructed evs' = [] \<and> (\<exists>b. r' = Inr b \<and> (VLLM_USE_V1 E \<longrightarrow> b))"
  shows "constructed evs = [] \<and> (\<exists>b. r = Inr b \<and> (VLLM_USE_V1 E \<longrightarrow> b))"
proof -
  obtain evs' r' where k: "k = (evs', r')" by (cases k)
  from assms(2) [OF k] have k': "constructed evs' = []" "\<exists>b. r' = Inr b \<and> (VLLM_USE_V1 E \<longrightarrow> b)"
    by blast+
  from assms(1) k k' show ?thesis
    by (cases c; cases "VLLM_USE_V1 E")
       (auto simp: experimental_def experimental_warning_def fallback_info_def bind_def
          emit_def ret_def constructed_simps)
qed

lemma oracle_experimental_cases:
  assumes "oracle_experimental E P a mc = (evs, r)"
  shows "constructed evs = [] \<and> (\<exists>b. r = Inr b \<and> (VLLM_USE_V1 E \<longrightarrow> b))"
  using assms unfolding oracle_experimental_def
  apply (elim experimental_step)+
  apply (auto simp: ret_def constructed_simps)
  done

lemma if_cases_rule: "(c \<Longrightarrow> Q x) \<Longrightarrow> (\<not> c \<Longrightarrow> Q y) \<Longrightarrow> Q (if c then x else y)"
  by simp

lemma oracle_tier_a:
  "(\<exists>f rm. is_v1_supported_oracle E P a mc = unsupported E f rm)
   \<or> (scheduling_policy a = ''fcfs'' \<and> num_scheduler_steps a = 1
       \<and> mc_task mc = ''generate'' \<and> \<not> truthy_str (collect_detailed_traces a)
       \<and> is_v1_supported_oracle E P a mc = oracle_experimental E P a mc)"
  unfolding is_v1_supported_oracle_def oracle_experimental_def [symmetric]
  apply (rule if_cases_rule [where Q = "\<lambda>x. (\<exists>f rm. x = unsupported E f rm)
     \<or> (scheduling_policy a = ''fcfs'' \<and> num_scheduler_steps a = 1
       \<and> mc_task mc = ''generate'' \<and> \<not> truthy_str (collect_detailed_traces a)
       \<and> x = oracle_experimental E P a mc)"], blast)+
  apply (simp add: EngineArgs_cls_def)
  done


lemma oracle_shape:
  assumes "is_v1_supported_oracle E P a mc = (evs, r)"
  shows "constructed evs = []
     \<and> (case r of
           Inl e \<Rightarrow> VLLM_USE_V1 E \<and> evs = [] \<and> (\<exists>m. e = NotImplementedError m)
         | Inr b \<Rightarrow> (VLLM_USE_V1 E \<longrightarrow> b))"
proof -
  from oracle_tier_a [of E P a mc] show ?thesis
  proof
    assume "\<exists>f rm. is_v1_supported_oracle E P a mc = unsupported E f rm"
    with assms show ?thesis
      by (auto simp: unsupported_eq constructed_simps split: if_splits)
  next
    assume "scheduling_policy a = ''fcfs'' \<and> num_scheduler_steps a = 1
       \<and> mc_task mc = ''generate'' \<and> \<not> truthy_str (collect_detailed_traces a)
       \<and> is_v1_supported_oracle E P a mc = oracle_experimental E P a mc"
    with assms have "oracle_experimental E P a mc = (evs, r)" by simp
    from oracle_experimental_cases [OF this] show ?thesis by auto
  qed
qed

lemma create_model_config_Inr:
  "\<exists>mc a1. create_model_config E X a = ([Constructed ModelConfig_cls], Inr (mc, a1))
     \<and> mc_tokenizer mc = tokenizer a
     \<and> mc_task mc = resolved_task (model_derived X)
     \<and> mc_runner_type mc = runner_type (model_derived X)
     \<and> a1 = a\<lparr>model := model a1, load_format := load_format a1, quantization := quantization a1\<rparr>"
  by (simp add: create_model_config_def Let_def bind_def emit_def ret_def)

lemma set_default_args_v1_Inr:
  "\<exists>evs a2. set_default_args_v1 P uc a = (evs, Inr a2) \<and> constructed evs = []
     \<and> enable_chunked_prefill a2 = Some True
     \<and> a2 = a\<lparr>max_num_batched_tokens := max_num_batched_tokens a2,
              max_num_seqs := max_num_seqs a2, enable_chunked_prefill := Some True\<rparr>"
proof -
  define tbl where "tbl = (if py_contains ''h100'' (py_lower (get_device_name P))
       \<or> py_contains ''h200'' (py_lower (get_device_name P))
     then [(LLM_CLASS, 16384 :: int), (OPENAI_API_SERVER, 8192)]
     else [(LLM_CLASS, 8192), (OPENAI_API_SERVER, 2048)])"
  define n where "n = (case uc of None \<Rightarrow> None | Some u \<Rightarrow> map_of tbl u)"
  show ?thesis
    unfolding set_default_args_v1_def Let_def tbl_def [symmetric]
    by (cases uc; cases "map_of tbl (the uc)"; cases "max_num_batched_tokens a";
        cases "max_num_seqs a")
       (simp_all add: bind_def emit_def ret_def constructed_simps)
qed

lemma set_default_args_v0_cases:
  "case set_default_args_v0 P a mc of (evs, r) \<Rightarrow>
     constructed evs = []
     \<and> (if enable_chunked_prefill a = Some True \<and> mc_runner_type mc = ''pooling''
         then r = Inl (ValueError ''Chunked prefill is not supported for pooling models'') \<and> evs = []
         else (case r of Inl e \<Rightarrow> False
               | Inr a2 \<Rightarrow> enable_chunked_prefill a2 \<noteq> None
                \<and> (enable_chunked_prefill a \<noteq> None \<longrightarrow> enable_chunked_prefill a2 = enable_chunked_prefill a)
                \<and> a2 = a\<lparr>enable_prefix_caching := enable_prefix_caching a2,
                         max_num_seqs := max_num_seqs a2,
                         enable_chunked_prefill := enable_chunked_prefill a2\<rparr>))"
  unfolding set_default_args_v0_def Let_def
  by (cases "enable_chunked_prefill a"; cases "max_num_seqs a")
     (simp_all add: bind_def emit_def ret_def raise_def constructed_simps truthy_bool_def)


lemma choose_use_v1_Inr:
  "\<exists>evs. choose_use_v1 E supported = (evs, Inr (chosen_v1 E supported)) \<and> constructed evs = []"
  by (simp add: choose_use_v1_def chosen_v1_def Let_def bind_def emit_def ret_def
      constructed_simps)

lemma assert_use_v1_passes:
  "VLLM_USE_V1 E \<longrightarrow> supported \<Longrightarrow> assert_use_v1 E (chosen_v1 E supported) = ([], Inr ())"
  by (auto simp: assert_use_v1_def chosen_v1_def ret_def)

lemma create_engine_config_cases:
  assumes "create_engine_config E P X uc a = (evs, r)"
  shows "\<exists>mc a1 ev_o ro.
      create_model_config E X a = ([Constructed ModelConfig_cls], Inr (mc, a1))
    \<and> is_v1_supported_oracle E P a1 mc = (ev_o, ro)
    \<and> (case ro of
         Inl e \<Rightarrow> r = Inl e \<and> evs = [Constructed DeviceConfig_cls, Constructed ModelConfig_cls]
       | Inr supported \<Rightarrow>
           (\<exists>ev_d rd.
               (if chosen_v1 E supported then set_default_args_v1 P uc a1
                else set_default_args_v0 P a1 mc) = (ev_d, rd)
             \<and> (case rd of
                  Inl e \<Rightarrow> r = Inl e \<and> constructed evs = [DeviceConfig_cls, ModelConfig_cls]
                | Inr a2 \<Rightarrow>
                    (\<exists>evs'. build_from_cache E P X \<lparr> dev_device = device a \<rparr> mc
                               (chosen_v1 E supported) a2 = (evs', r)
                      \<and> constructed evs
                          = [DeviceConfig_cls, ModelConfig_cls] @ constructed evs'))))"
proof -
  obtain mc a1 where cm: "create_model_config E X a = ([Constructed ModelConfig_cls], Inr (mc, a1))"
    using create_model_config_Inr [of E X a] by blast
  obtain ev_o ro where o: "is_v1_supported_oracle E P a1 mc = (ev_o, ro)"
    by (cases "is_v1_supported_oracle E P a1 mc")
  note sh = oracle_shape [OF o]
  show ?thesis
  proof (cases ro)
    case (Inl e)
    with sh have "ev_o = []" by simp
    with assms cm o Inl have "r = Inl e \<and> evs = [Constructed DeviceConfig_cls, Constructed ModelConfig_cls]"
      unfolding create_engine_config_blocks by (auto simp: bind_def emit_def)
    with cm o Inl show ?thesis by simp
  next
    case (Inr supported)
    with sh have co: "constructed ev_o = []" and f: "VLLM_USE_V1 E \<longrightarrow> supported" by simp_all
    obtain ev_c where ch: "choose_use_v1 E supported = (ev_c, Inr (chosen_v1 E supported))"
      and cc: "constructed ev_c = []"
      using choose_use_v1_Inr [of E supported] by blast
    note as = assert_use_v1_passes [OF f]
    obtain ev_d rd where d: "(if chosen_v1 E supported then set_default_args_v1 P uc a1
                else set_default_args_v0 P a1 mc) = (ev_d, rd)"
      by (cases "if chosen_v1 E supported then set_default_args_v1 P uc a1
                else set_default_args_v0 P a1 mc")
    have cd: "constructed ev_d = []"
    proof (cases "chosen_v1 E supported")
      case True
      with d set_default_args_v1_Inr [of P uc a1] show ?thesis by auto
    next
      case False
      with d set_default_args_v0_cases [where P = P and a = a1 and mc = mc] show ?thesis by auto
    qed
    show ?thesis
    proof (cases rd)
      case (Inl e)
      with assms cm o Inr ch as d co cc cd
      have "r = Inl e \<and> constructed evs = [DeviceConfig_cls, ModelConfig_cls]"
        unfolding create_engine_config_blocks
        by (auto simp: bind_def emit_def constructed_simps)
      with cm o Inr d Inl show ?thesis by simp
    next
      case a2: (Inr a2)
      obtain evs' r' where b: "build_from_cache E P X \<lparr> dev_device = device a \<rparr> mc
                               (chosen_v1 E supported) a2 = (evs', r')"
        by (cases "build_from_cache E P X \<lparr> dev_device = device a \<rparr> mc
                               (chosen_v1 E supported) a2")
      with assms cm o Inr ch as d co cc cd a2
      have "r' = r \<and> constructed evs = [DeviceConfig_cls, ModelConfig_cls] @ constructed evs'"
        unfolding create_engine_config_blocks
        by (auto simp: bind_def emit_def constructed_simps)
      with cm o Inr d a2 b show ?thesis by auto
    qed
  qed
qed

lemma create_engine_config_Inr:
  assumes "create_engine_config E P X uc a = (evs, Inr (cfg, a'))"
  shows "\<exists>supported.
      vc_use_v1 cfg = chosen_v1 E supported
    \<and> (VLLM_USE_V1 E \<longrightarrow> supported)
    \<and> (scheduling_policy a \<noteq> ''fcfs'' \<or> num_scheduler_steps a \<noteq> 1
         \<or> resolved_task (model_derived X) \<noteq> ''generate''
         \<or> truthy_str (collect_detailed_traces a) \<longrightarrow> \<not> supported)
    \<and> mc_tokenizer (vc_model_config cfg) = tokenizer a
    \<and> vc_speculative_config cfg = maybe_create_spec_config X
    \<and> (num_scheduler_steps a > 1 \<longrightarrow> maybe_create_spec_config X = None)
    \<and> sch_num_scheduler_steps (vc_scheduler_config cfg)
        = (if num_scheduler_steps a > 1 \<and> is_cpu P then 1 else num_scheduler_steps a)
    \<and> sch_num_lookahead_slots (vc_scheduler_config cfg)
        = (case maybe_create_spec_config X of
             None \<Rightarrow> max (num_lookahead_slots a)
                       (sch_num_scheduler_steps (vc_scheduler_config cfg) - 1)
           | Some s \<Rightarrow> spec_num_lookahead_slots s)
    \<and> (vc_use_v1 cfg \<longrightarrow> sch_enable_chunked_prefill (vc_scheduler_config cfg) = Some True)
    \<and> (\<not> vc_use_v1 cfg \<longrightarrow> enable_chunked_prefill a \<noteq> None \<longrightarrow>
          sch_enable_chunked_prefill (vc_scheduler_config cfg) = enable_chunked_prefill a)
    \<and> (\<not> vc_use_v1 cfg \<longrightarrow>
          \<not> (enable_chunked_prefill a = Some True \<and> runner_type (model_derived X) = ''pooling''))
    \<and> vc_lora_config cfg
        = (if enable_lora a
           then Some (LoRAConfig_init (enable_lora_bias a) (max_lora_rank a) (max_loras a)
                  (fully_sharded_loras a) (lora_extra_vocab_size a) (lora_dtype a)
                  (case max_cpu_loras a of None \<Rightarrow> None
                   | Some n \<Rightarrow> if n \<noteq> 0 \<and> n > 0 then Some n else None))
           else None)
    \<and> set (trace_modules a) \<subseteq> set ALLOWED_DETAILED_TRACE_MODULES"
proof -
  from create_engine_config_cases [OF assms]
  obtain mc a1 ev_o ro where cm: "create_model_config E X a = ([Constructed ModelConfig_cls], Inr (mc, a1))"
    and o: "is_v1_supported_oracle E P a1 mc = (ev_o, ro)"
    and rest: "case ro of
         Inl e \<Rightarrow> Inr (cfg, a') = Inl e \<and> evs = [Constructed DeviceConfig_cls, Constructed ModelConfig_cls]
       | Inr supported \<Rightarrow>
           (\<exists>ev_d rd.
               (if chosen_v1 E supported then set_default_args_v1 P uc a1
                else set_default_args_v0 P a1 mc) = (ev_d, rd)
             \<and> (case rd of
                  Inl e \<Rightarrow> Inr (cfg, a') = Inl e \<and> constructed evs = [DeviceConfig_cls, ModelConfig_cls]
                | Inr a2 \<Rightarrow>
                    (\<exists>evs'. build_from_cache E P X \<lparr> dev_device = device a \<rparr> mc
                               (chosen_v1 E supported) a2 = (evs', Inr (cfg, a'))
                      \<and> constructed evs
                          = [DeviceConfig_cls, ModelConfig_cls] @ constructed evs')))"
    by blast
  from rest obtain supported where ro: "ro = Inr supported" by (cases ro) auto
  with rest obtain ev_d rd where d: "(if chosen_v1 E supported then set_default_args_v1 P uc a1
                else set_default_args_v0 P a1 mc) = (ev_d, rd)"
    and rest2: "case rd of
                  Inl e \<Rightarrow> Inr (cfg, a') = Inl e \<and> constructed evs = [DeviceConfig_cls, ModelConfig_cls]
                | Inr a2 \<Rightarrow>
                    (\<exists>evs'. build_from_cache E P X \<lparr> dev_device = device a \<rparr> mc
                               (chosen_v1 E supported) a2 = (evs', Inr (cfg, a'))
                      \<and> constructed evs
                          = [DeviceConfig_cls, ModelConfig_cls] @ constructed evs')"
    by auto
  from rest2 obtain a2 where rd: "rd = Inr a2" by (cases rd) auto
  with rest2 obtain evs' where b: "build_from_cache E P X \<lparr> dev_device = device a \<rparr> mc
                               (chosen_v1 E supported) a2 = (evs', Inr (cfg, a'))"
    by auto
  from build_from_cache_cases [OF b]
  obtain ev_m evs'' r' cc pc where ms: "check_multi_step P (maybe_create_spec_config X) a2 = (ev_m, r')"
    and rest3: "case r' of
           Inl e \<Rightarrow> Inr (cfg, a') = Inl e \<and> evs'' = []
         | Inr a3 \<Rightarrow> build_from_scheduler E X \<lparr> dev_device = device a \<rparr> mc cc pc (chosen_v1 E supported)
               (maybe_create_spec_config X) a3 = (evs'', Inr (cfg, a'))"
    by blast
  from rest3 obtain a3 where r': "r' = Inr a3" by (cases r') auto
  with rest3 have s: "build_from_scheduler E X \<lparr> dev_device = device a \<rparr> mc cc pc (chosen_v1 E supported)
               (maybe_create_spec_config X) a3 = (evs'', Inr (cfg, a'))" by simp
  from build_from_scheduler_cases [OF s]
  obtain ev_l sc lc a4 where l: "build_from_load X \<lparr> dev_device = device a \<rparr> mc cc pc sc lc
        (chosen_v1 E supported) (maybe_create_spec_config X) a4 = (ev_l, Inr (cfg, a'))"
    and sc1: "sch_num_lookahead_slots sc =
          (case maybe_create_spec_config X of None \<Rightarrow> max (num_lookahead_slots a3) (num_scheduler_steps a3 - 1)
           | Some s \<Rightarrow> spec_num_lookahead_slots s)"
    and sc2: "sch_num_scheduler_steps sc = num_scheduler_steps a3"
    and sc3: "sch_enable_chunked_prefill sc = enable_chunked_prefill a3"
    and lc: "lc = (if enable_lora a3
              then Some (LoRAConfig_init (enable_lora_bias a3) (max_lora_rank a3) (max_loras a3)
                     (fully_sharded_loras a3) (lora_extra_vocab_size a3) (lora_dtype a3)
                     (case max_cpu_loras a3 of None \<Rightarrow> None
                      | Some n \<Rightarrow> if n \<noteq> 0 \<and> n > 0 then Some n else None))
              else None)"
    and a4: "a4 = a3\<lparr>model_loader_extra_config := model_loader_extra_config a4\<rparr>"
    by blast
  from build_from_load_cases [OF l]
  have fin: "check_detailed_trace_modules (trace_modules a4) = ([], Inr ())"
    "a' = a4" "vc_model_config cfg = mc" "vc_scheduler_config cfg = sc" "vc_lora_config cfg = lc"
    "vc_speculative_config cfg = maybe_create_spec_config X" "vc_use_v1 cfg = chosen_v1 E supported"
    by auto
  let ?F = "\<lambda>r. ((num_lookahead_slots r, enable_lora r, enable_lora_bias r, max_lora_rank r,
      max_loras r, fully_sharded_loras r), (lora_extra_vocab_size r, lora_dtype r, max_cpu_loras r,
      collect_detailed_traces r, tokenizer r, scheduling_policy r))"
  from create_model_config_Inr [of E X a] cm
  have mc: "mc_tokenizer mc = tokenizer a" "mc_task mc = resolved_task (model_derived X)"
      "mc_runner_type mc = runner_type (model_derived X)"
    and a1: "a1 = a\<lparr>model := model a1, load_format := load_format a1, quantization := quantization a1\<rparr>"
    by auto
  have g1: "?F a1 = ?F a" "num_scheduler_steps a1 = num_scheduler_steps a"
      "enable_chunked_prefill a1 = enable_chunked_prefill a"
    using arg_cong [OF a1, of ?F] arg_cong [OF a1, of num_scheduler_steps]
      arg_cong [OF a1, of enable_chunked_prefill] by simp_all
  have tier: "scheduling_policy a \<noteq> ''fcfs'' \<or> num_scheduler_steps a \<noteq> 1
         \<or> resolved_task (model_derived X) \<noteq> ''generate''
         \<or> truthy_str (collect_detailed_traces a) \<longrightarrow> \<not> supported"
  proof
    assume "scheduling_policy a \<noteq> ''fcfs'' \<or> num_scheduler_steps a \<noteq> 1
         \<or> resolved_task (model_derived X) \<noteq> ''generate''
         \<or> truthy_str (collect_detailed_traces a)"
    with g1 mc have "scheduling_policy a1 \<noteq> ''fcfs'' \<or> num_scheduler_steps a1 \<noteq> 1
         \<or> mc_task mc \<noteq> ''generate'' \<or> truthy_str (collect_detailed_traces a1)" by simp
    with oracle_tier_a [of E P a1 mc] obtain f rm
      where "is_v1_supported_oracle E P a1 mc = unsupported E f rm" by blast
    with o ro show "\<not> supported" by (simp add: unsupported_eq split: if_splits)
  qed
  from oracle_shape [OF o] ro have forced: "VLLM_USE_V1 E \<longrightarrow> supported" by simp
  have g2: "?F a2 = ?F a1 \<and> num_scheduler_steps a2 = num_scheduler_steps a1
      \<and> pipeline_parallel_size a2 = pipeline_parallel_size a1
      \<and> (chosen_v1 E supported \<longrightarrow> enable_chunked_prefill a2 = Some True)
      \<and> (\<not> chosen_v1 E supported \<longrightarrow> enable_chunked_prefill a1 \<noteq> None \<longrightarrow>
          enable_chunked_prefill a2 = enable_chunked_prefill a1)
      \<and> (\<not> chosen_v1 E supported \<longrightarrow>
          \<not> (enable_chunked_prefill a1 = Some True \<and> mc_runner_type mc = ''pooling''))"
  proof (cases "chosen_v1 E supported")
    case True
    with d rd set_default_args_v1_Inr [of P uc a1]
    have e: "enable_chunked_prefill a2 = Some True"
      and a2: "a2 = a1\<lparr>max_num_batched_tokens := max_num_batched_tokens a2,
              max_num_seqs := max_num_seqs a2, enable_chunked_prefill := Some True\<rparr>"
      by auto
    from True e arg_cong [OF a2, of ?F] arg_cong [OF a2, of num_scheduler_steps]
      arg_cong [OF a2, of pipeline_parallel_size]
    show ?thesis by simp
  next
    case False
    with d rd set_default_args_v0_cases [where P = P and a = a1 and mc = mc]
    have n: "\<not> (enable_chunked_prefill a1 = Some True \<and> mc_runner_type mc = ''pooling'')"
      by (auto split: if_splits)
    with False d rd set_default_args_v0_cases [where P = P and a = a1 and mc = mc]
    have e: "enable_chunked_prefill a1 \<noteq> None \<longrightarrow> enable_chunked_prefill a2 = enable_chunked_prefill a1"
      and a2: "a2 = a1\<lparr>enable_prefix_caching := enable_prefix_caching a2,
                         max_num_seqs := max_num_seqs a2,
                         enable_chunked_prefill := enable_chunked_prefill a2\<rparr>"
      by auto
    from False n e arg_cong [OF a2, of ?F] arg_cong [OF a2, of num_scheduler_steps]
      arg_cong [OF a2, of pipeline_parallel_size]
    show ?thesis by simp
  qed
  from check_multi_step_cases [OF ms] r'
  have nospec: "\<not> (num_scheduler_steps a2 > 1 \<and> maybe_create_spec_config X \<noteq> None)"
    and a3: "a3 = (if num_scheduler_steps a2 > 1 \<and> is_cpu P
                       then a2\<lparr>num_scheduler_steps := 1\<rparr> else a2)"
    by (auto split: if_splits)
  have g3: "?F a3 = ?F a2 \<and> enable_chunked_prefill a3 = enable_chunked_prefill a2
      \<and> num_scheduler_steps a3 = (if num_scheduler_steps a2 > 1 \<and> is_cpu P then 1
                                  else num_scheduler_steps a2)"
    unfolding a3 by simp
  have g4: "collect_detailed_traces a4 = collect_detailed_traces a3"
    using arg_cong [OF a4, of collect_detailed_traces] by simp
  from fin(1) check_detailed_trace_modules_cases [of "trace_modules a4"]
  have "set (trace_modules a4) \<subseteq> set ALLOWED_DETAILED_TRACE_MODULES" by auto
  with g4 g3 g2 g1 have tr: "set (trace_modules a) \<subseteq> set ALLOWED_DETAILED_TRACE_MODULES"
    by (simp add: trace_modules_def)
  have steps: "sch_num_scheduler_steps (vc_scheduler_config cfg)
        = (if num_scheduler_steps a > 1 \<and> is_cpu P then 1 else num_scheduler_steps a)"
    using fin sc2 g3 g2 g1 by simp
  have look: "sch_num_lookahead_slots (vc_scheduler_config cfg)
        = (case maybe_create_spec_config X of
             None \<Rightarrow> max (num_lookahead_slots a)
                       (sch_num_scheduler_steps (vc_scheduler_config cfg) - 1)
           | Some s \<Rightarrow> spec_num_lookahead_slots s)"
    using fin sc1 sc2 g3 g2 g1 by (simp split: option.splits)
  have ecp: "(vc_use_v1 cfg \<longrightarrow> sch_enable_chunked_prefill (vc_scheduler_config cfg) = Some True)
    \<and> (\<not> vc_use_v1 cfg \<longrightarrow> enable_chunked_prefill a \<noteq> None \<longrightarrow>
          sch_enable_chunked_prefill (vc_scheduler_config cfg) = enable_chunked_prefill a)
    \<and> (\<not> vc_use_v1 cfg \<longrightarrow>
          \<not> (enable_chunked_prefill a = Some True \<and> runner_type (model_derived X) = ''pooling''))"
    using fin sc3 g3 g2 g1 mc by simp
  have lora: "vc_lora_config cfg
        = (if enable_lora a
           then Some (LoRAConfig_init (enable_lora_bias a) (max_lora_rank a) (max_loras a)
                  (fully_sharded_loras a) (lora_extra_vocab_size a) (lora_dtype a)
                  (case max_cpu_loras a of None \<Rightarrow> None
                   | Some n \<Rightarrow> if n \<noteq> 0 \<and> n > 0 then Some n else None))
           else None)"
    using fin lc g3 g2 g1 by simp
  have spec: "num_scheduler_steps a > 1 \<longrightarrow> maybe_create_spec_config X = None"
    using nospec g2 g1 by simp
  from fin mc tier forced tr steps look ecp lora spec show ?thesis
    by (intro exI [of _ supported]) simp
qed

lemma create_engine_config_Inl:
  assumes "create_engine_config E P X uc a = (evs, Inl e)"
  shows "(VLLM_USE_V1 E \<and> (\<exists>m. e = NotImplementedError m)
          \<and> evs = [Constructed DeviceConfig_cls, Constructed ModelConfig_cls])
    \<or> (\<exists>supported. (VLLM_USE_V1 E \<longrightarrow> supported)
          \<and> (scheduling_policy a \<noteq> ''fcfs'' \<or> num_scheduler_steps a \<noteq> 1
               \<or> resolved_task (model_derived X) \<noteq> ''generate''
               \<or> truthy_str (collect_detailed_traces a) \<longrightarrow> \<not> supported)
          \<and> (if \<not> chosen_v1 E supported \<and> enable_chunked_prefill a = Some True
                 \<and> runner_type (model_derived X) = ''pooling''
              then e = ValueError ''Chunked prefill is not supported for pooling models''
                 \<and> constructed evs = [DeviceConfig_cls, ModelConfig_cls]
              else if num_scheduler_steps a > 1 \<and> maybe_create_spec_config X \<noteq> None
              then e = ValueError
                     ''Speculative decoding is not supported with multi-step (--num-scheduler-steps > 1)''
                 \<and> constructed evs = [DeviceConfig_cls, ModelConfig_cls, CacheConfig_cls,
                                       ParallelConfig_cls, SpeculativeConfig_cls]
              else (\<exists>msg. e = ValueError msg)
                 \<and> (DecodingConfig_cls \<in> set (constructed evs) \<longrightarrow>
                       check_detailed_trace_modules (trace_modules a) = ([], Inl e))))"
proof -
  from create_engine_config_cases [OF assms]
  obtain mc a1 ev_o ro where cm: "create_model_config E X a = ([Constructed ModelConfig_cls], Inr (mc, a1))"
    and o: "is_v1_supported_oracle E P a1 mc = (ev_o, ro)"
    and rest: "case ro of
         Inl e' \<Rightarrow> (Inl e :: error + VllmConfig \<times> EngineArgs) = Inl e'
             \<and> evs = [Constructed DeviceConfig_cls, Constructed ModelConfig_cls]
       | Inr supported \<Rightarrow>
           (\<exists>ev_d rd.
               (if chosen_v1 E supported then set_default_args_v1 P uc a1
                else set_default_args_v0 P a1 mc) = (ev_d, rd)
             \<and> (case rd of
                  Inl e' \<Rightarrow> (Inl e :: error + VllmConfig \<times> EngineArgs) = Inl e'
                      \<and> constructed evs = [DeviceConfig_cls, ModelConfig_cls]
                | Inr a2 \<Rightarrow>
                    (\<exists>evs'. build_from_cache E P X \<lparr> dev_device = device a \<rparr> mc
                               (chosen_v1 E supported) a2 = (evs', Inl e)
                      \<and> constructed evs
                          = [DeviceConfig_cls, ModelConfig_cls] @ constructed evs')))"
    by blast
  let ?F = "\<lambda>r. ((num_lookahead_slots r, enable_lora r, enable_lora_bias r, max_lora_rank r,
      max_loras r, fully_sharded_loras r), (lora_extra_vocab_size r, lora_dtype r, max_cpu_loras r,
      collect_detailed_traces r, tokenizer r, scheduling_policy r))"
  from create_model_config_Inr [of E X a] cm
  have mc: "mc_tokenizer mc = tokenizer a" "mc_task mc = resolved_task (model_derived X)"
      "mc_runner_type mc = runner_type (model_derived X)"
    and a1: "a1 = a\<lparr>model := model a1, load_format := load_format a1, quantization := quantization a1\<rparr>"
    by auto
  have g1: "?F a1 = ?F a" "num_scheduler_steps a1 = num_scheduler_steps a"
      "enable_chunked_prefill a1 = enable_chunked_prefill a"
    using arg_cong [OF a1, of ?F] arg_cong [OF a1, of num_scheduler_steps]
      arg_cong [OF a1, of enable_chunked_prefill] by simp_all
  show ?thesis
  proof (cases ro)
    case (Inl e')
    with rest oracle_shape [OF o] show ?thesis by auto
  next
    case ro: (Inr supported)
    have tier: "scheduling_policy a \<noteq> ''fcfs'' \<or> num_scheduler_steps a \<noteq> 1
         \<or> resolved_task (model_derived X) \<noteq> ''generate''
         \<or> truthy_str (collect_detailed_traces a) \<longrightarrow> \<not> supported"
    proof
      assume "scheduling_policy a \<noteq> ''fcfs'' \<or> num_scheduler_steps a \<noteq> 1
         \<or> resolved_task (model_derived X) \<noteq> ''generate''
         \<or> truthy_str (collect_detailed_traces a)"
      with g1 mc have "scheduling_policy a1 \<noteq> ''fcfs'' \<or> num_scheduler_steps a1 \<noteq> 1
         \<or> mc_task mc \<noteq> ''generate'' \<or> truthy_str (collect_detailed_traces a1)" by simp
      with oracle_tier_a [of E P a1 mc] obtain f rm
        where "is_v1_supported_oracle E P a1 mc = unsupported E f rm" by blast
      with o ro show "\<not> supported" by (simp add: unsupported_eq split: if_splits)
    qed
    from oracle_shape [OF o] ro have forced: "VLLM_USE_V1 E \<longrightarrow> supported" by simp
    from rest ro obtain ev_d rd where d: "(if chosen_v1 E supported then set_default_args_v1 P uc a1
                else set_default_args_v0 P a1 mc) = (ev_d, rd)"
      and rest2: "case rd of
                  Inl e' \<Rightarrow> (Inl e :: error + VllmConfig \<times> EngineArgs) = Inl e'
                      \<and> constructed evs = [DeviceConfig_cls, ModelConfig_cls]
                | Inr a2 \<Rightarrow>
                    (\<exists>evs'. build_from_cache E P X \<lparr> dev_device = device a \<rparr> mc
                               (chosen_v1 E supported) a2 = (evs', Inl e)
                      \<and> constructed evs
                          = [DeviceConfig_cls, ModelConfig_cls] @ constructed evs')"
      by auto
    have body: "if \<not> chosen_v1 E supported \<and> enable_chunked_prefill a = Some True
                 \<and> runner_type (model_derived X) = ''pooling''
              then e = ValueError ''Chunked prefill is not supported for pooling models''
                 \<and> constructed evs = [DeviceConfig_cls, ModelConfig_cls]
              else if num_scheduler_steps a > 1 \<and> maybe_create_spec_config X \<noteq> None
              then e = ValueError
                     ''Speculative decoding is not supported with multi-step (--num-scheduler-steps > 1)''
                 \<and> constructed evs = [DeviceConfig_cls, ModelConfig_cls, CacheConfig_cls,
                                       ParallelConfig_cls, SpeculativeConfig_cls]
              else (\<exists>msg. e = ValueError msg)
                 \<and> (DecodingConfig_cls \<in> set (constructed evs) \<longrightarrow>
                       check_detailed_trace_modules (trace_modules a) = ([], Inl e))"
    proof (cases rd)
      case (Inl e')
      with rest2 have e: "e' = e" and c: "constructed evs = [DeviceConfig_cls, ModelConfig_cls]"
        by simp_all
      have nv: "\<not> chosen_v1 E supported"
      proof
        assume "chosen_v1 E supported"
        with d Inl set_default_args_v1_Inr [of P uc a1] show False by auto
      qed
      with d Inl e set_default_args_v0_cases [where P = P and a = a1 and mc = mc]
      have "enable_chunked_prefill a1 = Some True \<and> mc_runner_type mc = ''pooling''
        \<and> e = ValueError ''Chunked prefill is not supported for pooling models''"
        by (auto split: if_splits)
      with nv c g1 mc show ?thesis by simp
    next
      case rd: (Inr a2)
      with rest2 obtain evs' where b: "build_from_cache E P X \<lparr> dev_device = device a \<rparr> mc
                               (chosen_v1 E supported) a2 = (evs', Inl e)"
        and c: "constructed evs = [DeviceConfig_cls, ModelConfig_cls] @ constructed evs'"
        by auto
      have g2: "?F a2 = ?F a1 \<and> num_scheduler_steps a2 = num_scheduler_steps a1
        \<and> \<not> (\<not> chosen_v1 E supported \<and> enable_chunked_prefill a1 = Some True
              \<and> mc_runner_type mc = ''pooling'')"
      proof (cases "chosen_v1 E supported")
        case True
        with d rd set_default_args_v1_Inr [of P uc a1]
        have a2: "a2 = a1\<lparr>max_num_batched_tokens := max_num_batched_tokens a2,
              max_num_seqs := max_num_seqs a2, enable_chunked_prefill := Some True\<rparr>"
          by auto
        from True arg_cong [OF a2, of ?F] arg_cong [OF a2, of num_scheduler_steps]
        show ?thesis by simp
      next
        case False
        with d rd set_default_args_v0_cases [where P = P and a = a1 and mc = mc]
        have n: "\<not> (enable_chunked_prefill a1 = Some True \<and> mc_runner_type mc = ''pooling'')"
          by (auto split: if_splits)
        with False d rd set_default_args_v0_cases [where P = P and a = a1 and mc = mc]
        have a2: "a2 = a1\<lparr>enable_prefix_caching := enable_prefix_caching a2,
                         max_num_seqs := max_num_seqs a2,
                         enable_chunked_prefill := enable_chunked_prefill a2\<rparr>"
          by auto
        from False n arg_cong [OF a2, of ?F] arg_cong [OF a2, of num_scheduler_steps]
        show ?thesis by simp
      qed
      from build_from_cache_cases [OF b]
      obtain ev_m evs'' r' cc pc
        where ms: "check_multi_step P (maybe_create_spec_config X) a2 = (ev_m, r')"
        and rest3: "case r' of
           Inl e' \<Rightarrow> (Inl e :: error + VllmConfig \<times> EngineArgs) = Inl e' \<and> evs'' = []
         | Inr a3 \<Rightarrow> build_from_scheduler E X \<lparr> dev_device = device a \<rparr> mc cc pc
               (chosen_v1 E supported) (maybe_create_spec_config X) a3 = (evs'', Inl e)"
        and c2: "constructed evs' = [CacheConfig_cls, ParallelConfig_cls]
          @ (if maybe_create_spec_config X \<noteq> None then [SpeculativeConfig_cls] else [])
          @ constructed evs''"
        by blast
      show ?thesis
      proof (cases r')
        case (Inl e')
        with rest3 have "e' = e" "evs'' = []" by simp_all
        with Inl check_multi_step_cases [OF ms] c c2 g2 g1 mc show ?thesis
          by (auto simp: constructed_simps split: if_splits)
      next
        case r': (Inr a3)
        with rest3 have s: "build_from_scheduler E X \<lparr> dev_device = device a \<rparr> mc cc pc
               (chosen_v1 E supported) (maybe_create_spec_config X) a3 = (evs'', Inl e)" by simp
        from check_multi_step_cases [OF ms] r'
        have nospec: "\<not> (num_scheduler_steps a2 > 1 \<and> maybe_create_spec_config X \<noteq> None)"
          and a3: "a3 = (if num_scheduler_steps a2 > 1 \<and> is_cpu P
                       then a2\<lparr>num_scheduler_steps := 1\<rparr> else a2)"
          by (auto split: if_splits)
        have g3: "?F a3 = ?F a2" unfolding a3 by simp
        from build_from_scheduler_cases [OF s]
        obtain ev_l sc lc a4 where l: "build_from_load X \<lparr> dev_device = device a \<rparr> mc cc pc sc lc
            (chosen_v1 E supported) (maybe_create_spec_config X) a4 = (ev_l, Inl e)"
          and c3: "constructed evs'' = SchedulerConfig_cls
              # (if enable_lora a3 then [LoRAConfig_cls] else []) @ constructed ev_l"
          and a4: "a4 = a3\<lparr>model_loader_extra_config := model_loader_extra_config a4\<rparr>"
          by blast
        have g4: "collect_detailed_traces a4 = collect_detailed_traces a3"
          using arg_cong [OF a4, of collect_detailed_traces] by simp
        with g3 g2 g1 have tm: "trace_modules a4 = trace_modules a"
          by (simp add: trace_modules_def)
        from build_from_load_cases [OF l]
        have "(\<exists>msg. e = ValueError msg) \<and> (DecodingConfig_cls \<in> set (constructed ev_l) \<longrightarrow>
                 check_detailed_trace_modules (trace_modules a4) = ([], Inl e))"
          using check_detailed_trace_modules_cases [of "trace_modules a4"]
          by (auto simp: constructed_simps)
        with tm c c2 c3 nospec g2 g1 mc show ?thesis
          by (auto simp: constructed_simps split: if_splits)
      qed
    qed
    from forced tier body show ?thesis by blast
  qed
qed

lemma tier_a_fallback_events:
  assumes "\<not> VLLM_USE_V1 E"
    and "scheduling_policy a \<noteq> ''fcfs'' \<or> num_scheduler_steps a \<noteq> 1
         \<or> resolved_task (model_derived X) \<noteq> ''generate''
         \<or> truthy_str (collect_detailed_traces a)"
  shows "\<exists>w rest r. create_engine_config E P X uc a
           = (Constructed DeviceConfig_cls # Constructed ModelConfig_cls # Log WARNING w [] # rest, r)"
proof -
  from create_model_config_Inr [of E X a]
  obtain mc a1 where cm: "create_model_config E X a = ([Constructed ModelConfig_cls], Inr (mc, a1))"
    and mc: "mc_task mc = resolved_task (model_derived X)"
    and a1: "a1 = a\<lparr>model := model a1, load_format := load_format a1, quantization := quantization a1\<rparr>"
    by blast
  let ?F = "\<lambda>r. (scheduling_policy r, num_scheduler_steps r, collect_detailed_traces r)"
  from arg_cong [OF a1, of ?F] have "?F a1 = ?F a" by simp
  with assms(2) mc have "scheduling_policy a1 \<noteq> ''fcfs'' \<or> num_scheduler_steps a1 \<noteq> 1
         \<or> mc_task mc \<noteq> ''generate'' \<or> truthy_str (collect_detailed_traces a1)" by simp
  with oracle_tier_a [of E P a1 mc] obtain f rm
    where "is_v1_supported_oracle E P a1 mc = unsupported E f rm" by blast
  with assms(1) obtain w where o: "is_v1_supported_oracle E P a1 mc = ([Log WARNING w []], Inr False)"
    by (simp add: unsupported_eq)
  show ?thesis
    unfolding create_engine_config_blocks
    by (simp add: cm o bind_def emit_def split: prod.splits sum.splits)
qed

subsection \<open>The load configuration\<close>




subsection \<open>Lookahead slots\<close>

text \<open>
  Claim C2, as amended. In every successful resolution the speculative configuration is the
  one that \<^verbatim>\<open>maybe_create_spec_config\<close> returned, and the number of lookahead slots of
  the scheduler configuration is the number that the speculative configuration asks for when
  there is one, and otherwise the maximum of \<^verbatim>\<open>num_lookahead_slots\<close> and the number of
  scheduler steps less one, where the number of scheduler steps is the one that reaches the
  scheduler configuration: 1 on a CPU when more than one step was asked for, and the number
  asked for in every other case.
\<close>

theorem lookahead_slots_resolution:
  assumes "create_engine_config E P X uc a = (evs, Inr (cfg, a'))"
  shows "vc_speculative_config cfg = maybe_create_spec_config X
    \<and> sch_num_scheduler_steps (vc_scheduler_config cfg)
        = (if num_scheduler_steps a > 1 \<and> is_cpu P then 1 else num_scheduler_steps a)
    \<and> sch_num_lookahead_slots (vc_scheduler_config cfg)
        = (case vc_speculative_config cfg of
             Some s \<Rightarrow> spec_num_lookahead_slots s
           | None \<Rightarrow> max (num_lookahead_slots a)
                       ((if num_scheduler_steps a > 1 \<and> is_cpu P then 1
                         else num_scheduler_steps a) - 1))"
proof -
  from create_engine_config_Inr [OF assms]
  have "vc_speculative_config cfg = maybe_create_spec_config X"
    and "sch_num_scheduler_steps (vc_scheduler_config cfg)
        = (if num_scheduler_steps a > 1 \<and> is_cpu P then 1 else num_scheduler_steps a)"
    and "sch_num_lookahead_slots (vc_scheduler_config cfg)
        = (case maybe_create_spec_config X of
             None \<Rightarrow> max (num_lookahead_slots a)
                       (sch_num_scheduler_steps (vc_scheduler_config cfg) - 1)
           | Some s \<Rightarrow> spec_num_lookahead_slots s)"
    by blast+
  then show ?thesis by (simp split: option.splits)
qed

text \<open>
  The theorem at the two inputs of the specification, on a CUDA platform: no lookahead
  slots, four scheduler steps and no speculative configuration give 3; a speculative
  configuration that asks for 5 gives 5 (with one scheduler step, since more than one step
  and a speculative configuration exclude each other).
\<close>

theorem lookahead_slots_resolution_witness:
  "\<not> isl (snd (create_engine_config env_unset cuda_platform plain_collaborators (Some LLM_CLASS)
       (default_args\<lparr>num_scheduler_steps := 4, num_lookahead_slots := 0\<rparr>)))
   \<and> sch_num_lookahead_slots (vc_scheduler_config (fst (projr (snd
       (create_engine_config env_unset cuda_platform plain_collaborators (Some LLM_CLASS)
         (default_args\<lparr>num_scheduler_steps := 4, num_lookahead_slots := 0\<rparr>)))))) = 3
   \<and> \<not> isl (snd (create_engine_config env_unset cuda_platform
       (plain_collaborators\<lparr>maybe_create_spec_config := Some draft_five\<rparr>) (Some LLM_CLASS)
       (default_args\<lparr>speculative_model := Some ''draft''\<rparr>)))
   \<and> sch_num_lookahead_slots (vc_scheduler_config (fst (projr (snd
       (create_engine_config env_unset cuda_platform
         (plain_collaborators\<lparr>maybe_create_spec_config := Some draft_five\<rparr>) (Some LLM_CLASS)
         (default_args\<lparr>speculative_model := Some ''draft''\<rparr>)))))) = 5"
proof -
  define R where "R = create_engine_config env_unset cuda_platform plain_collaborators
       (Some LLM_CLASS) (default_args\<lparr>num_scheduler_steps := 4, num_lookahead_slots := 0\<rparr>)"
  define S where "S = create_engine_config env_unset cuda_platform
       (plain_collaborators\<lparr>maybe_create_spec_config := Some draft_five\<rparr>) (Some LLM_CLASS)
       (default_args\<lparr>speculative_model := Some ''draft''\<rparr>)"
  have okR: "\<not> isl (snd R)" unfolding R_def by code_simp
  have okS: "\<not> isl (snd S)" unfolding S_def by code_simp
  from okR have eqR: "R = (fst R, Inr (fst (projr (snd R)), snd (projr (snd R))))"
    by (cases R; cases "snd R") auto
  from okS have eqS: "S = (fst S, Inr (fst (projr (snd S)), snd (projr (snd S))))"
    by (cases S; cases "snd S") auto
  from lookahead_slots_resolution [OF eqR [unfolded R_def]]
  have "sch_num_lookahead_slots (vc_scheduler_config (fst (projr (snd R)))) = 3"
    unfolding R_def
    by (simp add: plain_collaborators_def cuda_platform_def default_args_def post_init_def
        EngineArgs_cls_def truthy_str_def)
  moreover from lookahead_slots_resolution [OF eqS [unfolded S_def]]
  have "sch_num_lookahead_slots (vc_scheduler_config (fst (projr (snd S)))) = 5"
    unfolding S_def
    by (simp add: plain_collaborators_def draft_five_def)
  ultimately show ?thesis using okR okS unfolding R_def S_def by simp
qed

text \<open>
  Claim C2 as first stated fails on a CPU: with no lookahead slots, four scheduler steps
  and no speculative configuration the resolution succeeds with 0 lookahead slots, not 3,
  because the number of steps has been set to 1 before the maximum is taken.
\<close>

theorem cpu_clamp_lookahead_counterexample:
  "num_lookahead_slots (default_args\<lparr>num_scheduler_steps := 4, num_lookahead_slots := 0\<rparr>) = 0
   \<and> num_scheduler_steps (default_args\<lparr>num_scheduler_steps := 4, num_lookahead_slots := 0\<rparr>) = 4
   \<and> maybe_create_spec_config plain_collaborators = None
   \<and> \<not> isl (snd (create_engine_config env_unset cpu_platform plain_collaborators (Some LLM_CLASS)
       (default_args\<lparr>num_scheduler_steps := 4, num_lookahead_slots := 0\<rparr>)))
   \<and> vc_speculative_config (fst (projr (snd
       (create_engine_config env_unset cpu_platform plain_collaborators (Some LLM_CLASS)
         (default_args\<lparr>num_scheduler_steps := 4, num_lookahead_slots := 0\<rparr>))))) = None
   \<and> sch_num_lookahead_slots (vc_scheduler_config (fst (projr (snd
       (create_engine_config env_unset cpu_platform plain_collaborators (Some LLM_CLASS)
         (default_args\<lparr>num_scheduler_steps := 4, num_lookahead_slots := 0\<rparr>)))))) = 0"
  by code_simp

subsection \<open>Chunked prefill under the V1 engine\<close>

text \<open>
  Claim C6. Whenever a resolution succeeds with the V1 engine chosen, the scheduler
  configuration has chunked prefill enabled, whatever the arguments said about it.
\<close>

theorem nextgen_forces_chunked_prefill:
  assumes "create_engine_config E P X uc a = (evs, Inr (cfg, a'))" and "vc_use_v1 cfg"
  shows "sch_enable_chunked_prefill (vc_scheduler_config cfg) = Some True"
  using create_engine_config_Inr [OF assms(1)] assms(2) by blast

text \<open>The theorem at an input that asks for no chunked prefill and forces the V1 engine.\<close>

theorem nextgen_forces_chunked_prefill_witness:
  "enable_chunked_prefill (default_args\<lparr>enable_chunked_prefill := Some False\<rparr>) = Some False
   \<and> \<not> isl (snd (create_engine_config env_forced_v1 cuda_platform plain_collaborators
          (Some LLM_CLASS) (default_args\<lparr>enable_chunked_prefill := Some False\<rparr>)))
   \<and> vc_use_v1 (fst (projr (snd (create_engine_config env_forced_v1 cuda_platform
          plain_collaborators (Some LLM_CLASS)
          (default_args\<lparr>enable_chunked_prefill := Some False\<rparr>)))))
   \<and> sch_enable_chunked_prefill (vc_scheduler_config (fst (projr (snd
          (create_engine_config env_forced_v1 cuda_platform plain_collaborators
            (Some LLM_CLASS) (default_args\<lparr>enable_chunked_prefill := Some False\<rparr>))))))
       = Some True"
proof -
  define R where "R = create_engine_config env_forced_v1 cuda_platform plain_collaborators
          (Some LLM_CLASS) (default_args\<lparr>enable_chunked_prefill := Some False\<rparr>)"
  have ok: "\<not> isl (snd R) \<and> vc_use_v1 (fst (projr (snd R)))"
    unfolding R_def by code_simp
  then have eq: "R = (fst R, Inr (fst (projr (snd R)), snd (projr (snd R))))"
    by (cases R; cases "snd R") auto
  have "enable_chunked_prefill (default_args\<lparr>enable_chunked_prefill := Some False\<rparr>) = Some False"
    by simp
  with ok nextgen_forces_chunked_prefill [OF eq [unfolded R_def]] show ?thesis
    unfolding R_def by simp
qed

subsection \<open>The LoRA configuration\<close>

text \<open>
  Claim C8. In every successful resolution with LoRA enabled and \<^verbatim>\<open>max_cpu_loras\<close> unset
  or not positive, the LoRA configuration is present and its \<^verbatim>\<open>max_cpu_loras\<close> equals
  \<^verbatim>\<open>max_loras\<close>. This file passes \<^verbatim>\<open>None\<close> in these cases; the default itself is
  taken by the constructor \<open>LoRAConfig_init\<close>.
\<close>

theorem max_cpu_loras_defaults_to_max_loras:
  assumes "create_engine_config E P X uc a = (evs, Inr (cfg, a'))"
    and "enable_lora a"
    and "max_cpu_loras a = None \<or> (\<exists>n. max_cpu_loras a = Some n \<and> n \<le> 0)"
  shows "\<exists>lc. vc_lora_config cfg = Some lc \<and> lora_max_cpu_loras lc = max_loras a
           \<and> lora_max_loras lc = max_loras a"
proof -
  from create_engine_config_Inr [OF assms(1)] assms(2)
  have "vc_lora_config cfg
        = Some (LoRAConfig_init (enable_lora_bias a) (max_lora_rank a) (max_loras a)
                  (fully_sharded_loras a) (lora_extra_vocab_size a) (lora_dtype a)
                  (case max_cpu_loras a of None \<Rightarrow> None
                   | Some n \<Rightarrow> if n \<noteq> 0 \<and> n > 0 then Some n else None))"
    by auto
  with assms(3) show ?thesis
    by (auto simp: LoRAConfig_init_def)
qed

text \<open>The theorem at the input of the specification: LoRA enabled, four LoRAs, no CPU count.\<close>

theorem max_cpu_loras_defaults_to_max_loras_witness:
  "enable_lora (default_args\<lparr>enable_lora := True, max_loras := 4\<rparr>)
   \<and> max_cpu_loras (default_args\<lparr>enable_lora := True, max_loras := 4\<rparr>) = None
   \<and> \<not> isl (snd (create_engine_config env_unset cuda_platform plain_collaborators (Some LLM_CLASS)
       (default_args\<lparr>enable_lora := True, max_loras := 4\<rparr>)))
   \<and> (\<exists>lc. vc_lora_config (fst (projr (snd
       (create_engine_config env_unset cuda_platform plain_collaborators (Some LLM_CLASS)
         (default_args\<lparr>enable_lora := True, max_loras := 4\<rparr>))))) = Some lc
       \<and> lora_max_cpu_loras lc = 4)"
proof -
  define R where "R = create_engine_config env_unset cuda_platform plain_collaborators
       (Some LLM_CLASS) (default_args\<lparr>enable_lora := True, max_loras := 4\<rparr>)"
  have ok: "\<not> isl (snd R)" unfolding R_def by code_simp
  then have eq: "R = (fst R, Inr (fst (projr (snd R)), snd (projr (snd R))))"
    by (cases R; cases "snd R") auto
  have h: "enable_lora (default_args\<lparr>enable_lora := True, max_loras := 4\<rparr>)"
    "max_cpu_loras (default_args\<lparr>enable_lora := True, max_loras := 4\<rparr>) = None"
    by (simp_all add: default_args_def post_init_def EngineArgs_cls_def truthy_str_def)
  from max_cpu_loras_defaults_to_max_loras [OF eq [unfolded R_def] h(1)] h ok
  show ?thesis unfolding R_def by auto
qed

subsection \<open>The tokenizer\<close>

text \<open>
  Claim C10. When the tokenizer is unset (\<^verbatim>\<open>None\<close> or empty), \<^verbatim>\<open>__post_init__\<close> sets
  it to the model string, \<^verbatim>\<open>create_model_config\<close> builds a model configuration whose
  tokenizer is that string, and so does every successful resolution. (The model string is
  the one given in the arguments: when \<^verbatim>\<open>create_model_config\<close> redirects the model to the
  S3 bucket, the tokenizer stays the name that was given.)
\<close>

theorem tokenizer_defaults_to_model:
  assumes "tokenizer raw = None \<or> tokenizer raw = Some []"
  shows "tokenizer (post_init raw) = Some (model raw)
    \<and> (\<exists>mc a1. create_model_config E X (post_init raw)
                  = ([Constructed ModelConfig_cls], Inr (mc, a1))
          \<and> mc_tokenizer mc = Some (model raw))
    \<and> (create_engine_config E P X uc (post_init raw) = (evs, Inr (cfg, a'))
          \<longrightarrow> mc_tokenizer (vc_model_config cfg) = Some (model raw))"
proof -
  from assms have t: "tokenizer (post_init raw) = Some (model raw)"
    by (auto simp: post_init_def truthy_str_def)
  moreover from create_model_config_Inr [of E X "post_init raw"] t
  have "\<exists>mc a1. create_model_config E X (post_init raw)
                  = ([Constructed ModelConfig_cls], Inr (mc, a1))
          \<and> mc_tokenizer mc = Some (model raw)"
    by auto
  moreover have "mc_tokenizer (vc_model_config cfg) = Some (model raw)"
    if "create_engine_config E P X uc (post_init raw) = (evs, Inr (cfg, a'))"
    using create_engine_config_Inr [OF that] t by auto
  ultimately show ?thesis by blast
qed

text \<open>The theorem at the default arguments, whose tokenizer is unset.\<close>

theorem tokenizer_defaults_to_model_witness:
  "tokenizer EngineArgs_cls = None
   \<and> tokenizer (post_init EngineArgs_cls) = Some ''facebook/opt-125m''
   \<and> \<not> isl (snd (create_engine_config env_unset cuda_platform plain_collaborators (Some LLM_CLASS)
       (post_init EngineArgs_cls)))
   \<and> mc_tokenizer (vc_model_config (fst (projr (snd
       (create_engine_config env_unset cuda_platform plain_collaborators (Some LLM_CLASS)
         (post_init EngineArgs_cls)))))) = Some ''facebook/opt-125m''"
proof -
  define R where "R = create_engine_config env_unset cuda_platform plain_collaborators
       (Some LLM_CLASS) (post_init EngineArgs_cls)"
  have ok: "\<not> isl (snd R)" unfolding R_def by code_simp
  then have eq: "R = (fst R, Inr (fst (projr (snd R)), snd (projr (snd R))))"
    by (cases R; cases "snd R") auto
  have h: "tokenizer EngineArgs_cls = None" "model EngineArgs_cls = ''facebook/opt-125m''"
    by (simp_all add: EngineArgs_cls_def)
  from tokenizer_defaults_to_model [of EngineArgs_cls env_unset plain_collaborators
      cuda_platform "Some LLM_CLASS" "fst R" "fst (projr (snd R))" "snd (projr (snd R))"]
    h ok eq
  show ?thesis unfolding R_def by simp
qed

subsection \<open>Multi-step scheduling and speculative decoding\<close>

text \<open>
  Claim C3, as amended. With more than one scheduler step and a speculative configuration
  present, the resolution always fails. When \<^verbatim>\<open>VLLM_USE_V1\<close> holds it fails in the oracle
  with \<^verbatim>\<open>NotImplementedError\<close>, after the device and model configurations have been
  built. Otherwise, when chunked prefill is asked for and the model is a pooling model, it
  fails in the defaults of the V0 engine, at the same point. In every other case it fails
  with the \<^verbatim>\<open>ValueError\<close> of the multi-step check, and by then the device, model,
  cache, parallel and speculative configurations have been built; no later one is.
\<close>

theorem multi_step_excludes_speculative_decoding:
  assumes "num_scheduler_steps a > 1" and "maybe_create_spec_config X \<noteq> None"
  shows "\<exists>evs e. create_engine_config E P X uc a = (evs, Inl e)
     \<and> (if VLLM_USE_V1 E
         then (\<exists>m. e = NotImplementedError m)
            \<and> constructed evs = [DeviceConfig_cls, ModelConfig_cls]
         else if enable_chunked_prefill a = Some True
                 \<and> runner_type (model_derived X) = ''pooling''
         then e = ValueError ''Chunked prefill is not supported for pooling models''
            \<and> constructed evs = [DeviceConfig_cls, ModelConfig_cls]
         else e = ValueError
                ''Speculative decoding is not supported with multi-step (--num-scheduler-steps > 1)''
            \<and> constructed evs = [DeviceConfig_cls, ModelConfig_cls, CacheConfig_cls,
                                  ParallelConfig_cls, SpeculativeConfig_cls])"
proof -
  obtain evs r where R: "create_engine_config E P X uc a = (evs, r)"
    by (cases "create_engine_config E P X uc a")
  show ?thesis
  proof (cases r)
    case (Inr p)
    with R create_engine_config_Inr [of E P X uc a evs "fst p" "snd p"] assms
    show ?thesis by auto
  next
    case (Inl e)
    from create_engine_config_Inl [OF R [unfolded Inl]] assms
    have "if VLLM_USE_V1 E
         then (\<exists>m. e = NotImplementedError m)
            \<and> constructed evs = [DeviceConfig_cls, ModelConfig_cls]
         else if enable_chunked_prefill a = Some True
                 \<and> runner_type (model_derived X) = ''pooling''
         then e = ValueError ''Chunked prefill is not supported for pooling models''
            \<and> constructed evs = [DeviceConfig_cls, ModelConfig_cls]
         else e = ValueError
                ''Speculative decoding is not supported with multi-step (--num-scheduler-steps > 1)''
            \<and> constructed evs = [DeviceConfig_cls, ModelConfig_cls, CacheConfig_cls,
                                  ParallelConfig_cls, SpeculativeConfig_cls]"
      by (auto simp: chosen_v1_def constructed_simps split: if_splits)
    with R Inl show ?thesis by blast
  qed
qed

text \<open>The theorem at two scheduler steps and a draft model, with the override unset and forced.\<close>

theorem multi_step_excludes_speculative_decoding_witness:
  "num_scheduler_steps (default_args\<lparr>num_scheduler_steps := 2\<rparr>) > 1
   \<and> maybe_create_spec_config (plain_collaborators\<lparr>maybe_create_spec_config := Some draft_five\<rparr>)
       \<noteq> None
   \<and> (\<exists>evs. create_engine_config env_unset cuda_platform
         (plain_collaborators\<lparr>maybe_create_spec_config := Some draft_five\<rparr>) (Some LLM_CLASS)
         (default_args\<lparr>num_scheduler_steps := 2\<rparr>)
       = (evs, Inl (ValueError
           ''Speculative decoding is not supported with multi-step (--num-scheduler-steps > 1)''))
       \<and> constructed evs = [DeviceConfig_cls, ModelConfig_cls, CacheConfig_cls,
                             ParallelConfig_cls, SpeculativeConfig_cls])
   \<and> (\<exists>evs m. create_engine_config env_forced_v1 cuda_platform
         (plain_collaborators\<lparr>maybe_create_spec_config := Some draft_five\<rparr>) (Some LLM_CLASS)
         (default_args\<lparr>num_scheduler_steps := 2\<rparr>)
       = (evs, Inl (NotImplementedError m))
       \<and> constructed evs = [DeviceConfig_cls, ModelConfig_cls])"
proof -
  have h: "num_scheduler_steps (default_args\<lparr>num_scheduler_steps := 2\<rparr>) > 1"
    "maybe_create_spec_config (plain_collaborators\<lparr>maybe_create_spec_config := Some draft_five\<rparr>)
       \<noteq> None"
    by simp_all
  have g: "\<not> VLLM_USE_V1 env_unset" "VLLM_USE_V1 env_forced_v1"
    "enable_chunked_prefill (default_args\<lparr>num_scheduler_steps := 2\<rparr>) = None"
    by (simp_all add: env_unset_def env_forced_v1_def default_args_def post_init_def
        EngineArgs_cls_def truthy_str_def)
  from multi_step_excludes_speculative_decoding [OF h, of env_unset cuda_platform "Some LLM_CLASS"]
    multi_step_excludes_speculative_decoding [OF h, of env_forced_v1 cuda_platform "Some LLM_CLASS"]
    h g
  show ?thesis by auto
qed

text \<open>
  Claim C3 as first stated fails: at two scheduler steps with a speculative configuration
  the conflict is raised only after five configurations have been built, the speculative
  one among them, not before any.
\<close>

theorem configurations_built_before_conflict_counterexample:
  "num_scheduler_steps (default_args\<lparr>num_scheduler_steps := 2\<rparr>) = 2
   \<and> maybe_create_spec_config (plain_collaborators\<lparr>maybe_create_spec_config := Some draft_five\<rparr>)
       = Some draft_five
   \<and> snd (create_engine_config env_unset cuda_platform
         (plain_collaborators\<lparr>maybe_create_spec_config := Some draft_five\<rparr>) (Some LLM_CLASS)
         (default_args\<lparr>num_scheduler_steps := 2\<rparr>))
       = Inl (ValueError
           ''Speculative decoding is not supported with multi-step (--num-scheduler-steps > 1)'')
   \<and> constructed (fst (create_engine_config env_unset cuda_platform
         (plain_collaborators\<lparr>maybe_create_spec_config := Some draft_five\<rparr>) (Some LLM_CLASS)
         (default_args\<lparr>num_scheduler_steps := 2\<rparr>)))
       = [DeviceConfig_cls, ModelConfig_cls, CacheConfig_cls, ParallelConfig_cls,
          SpeculativeConfig_cls]"
  by code_simp

subsection \<open>Chunked prefill and pooling models\<close>

text \<open>
  Claim C4, as amended. Let chunked prefill be asked for and the model be a pooling model.
  The defaults of the V0 engine then raise the \<^verbatim>\<open>ValueError\<close>
  \<^verbatim>\<open>Chunked prefill is not supported for pooling models\<close>; the defaults of the V1 engine
  make no such check and never fail. A resolution can therefore succeed only with the V1
  engine chosen; and when the task is not \<^verbatim>\<open>generate\<close>, as it is for pooling models, the
  resolution fails with that \<^verbatim>\<open>ValueError\<close> unless \<^verbatim>\<open>VLLM_USE_V1\<close> holds, in which
  case it fails earlier, in the oracle, with \<^verbatim>\<open>NotImplementedError\<close>.
\<close>

theorem chunked_prefill_rejected_for_pooling:
  assumes "enable_chunked_prefill a = Some True"
    and "runner_type (model_derived X) = ''pooling''"
  shows "(mc_runner_type mc = ''pooling'' \<longrightarrow>
            set_default_args_v0 P a mc
              = ([], Inl (ValueError ''Chunked prefill is not supported for pooling models'')))
     \<and> (\<exists>evs a2. set_default_args_v1 P uc a = (evs, Inr a2))
     \<and> (\<exists>evs r. create_engine_config E P X uc a = (evs, r)
          \<and> (\<forall>cfg a'. r = Inr (cfg, a') \<longrightarrow> vc_use_v1 cfg)
          \<and> (resolved_task (model_derived X) \<noteq> ''generate'' \<longrightarrow>
               (if VLLM_USE_V1 E then (\<exists>m. r = Inl (NotImplementedError m))
                else r = Inl (ValueError
                        ''Chunked prefill is not supported for pooling models''))))"
proof -
  have v0: "set_default_args_v0 P a mc
              = ([], Inl (ValueError ''Chunked prefill is not supported for pooling models''))"
    if "mc_runner_type mc = ''pooling''"
    using set_default_args_v0_cases [where P = P and a = a and mc = mc] assms(1) that
    by (cases "set_default_args_v0 P a mc") auto
  from set_default_args_v1_Inr [of P uc a]
  have v1: "\<exists>evs a2. set_default_args_v1 P uc a = (evs, Inr a2)" by blast
  obtain evs r where R: "create_engine_config E P X uc a = (evs, r)"
    by (cases "create_engine_config E P X uc a")
  have s: "vc_use_v1 cfg" if "r = Inr (cfg, a')" for cfg a'
    using create_engine_config_Inr [OF R [unfolded that]] assms by auto
  have t: "if VLLM_USE_V1 E then (\<exists>m. r = Inl (NotImplementedError m))
                else r = Inl (ValueError
                        ''Chunked prefill is not supported for pooling models'')"
    if g: "resolved_task (model_derived X) \<noteq> ''generate''"
  proof (cases r)
    case (Inr p)
    with R create_engine_config_Inr [of E P X uc a evs "fst p" "snd p"] assms g
    show ?thesis by (auto simp: chosen_v1_def)
  next
    case (Inl e)
    from create_engine_config_Inl [OF R [unfolded Inl]] assms g Inl
    show ?thesis by (auto simp: chosen_v1_def split: if_splits)
  qed
  from v0 v1 R s t show ?thesis by blast
qed

text \<open>The theorem at an embedding model with chunked prefill asked for and the override unset.\<close>

theorem chunked_prefill_rejected_for_pooling_witness:
  "enable_chunked_prefill (default_args\<lparr>enable_chunked_prefill := Some True\<rparr>) = Some True
   \<and> runner_type (model_derived (plain_collaborators\<lparr>model_derived := pooling_model\<rparr>))
       = ''pooling''
   \<and> resolved_task (model_derived (plain_collaborators\<lparr>model_derived := pooling_model\<rparr>))
       \<noteq> ''generate''
   \<and> \<not> VLLM_USE_V1 env_unset
   \<and> snd (create_engine_config env_unset cuda_platform
         (plain_collaborators\<lparr>model_derived := pooling_model\<rparr>) (Some LLM_CLASS)
         (default_args\<lparr>enable_chunked_prefill := Some True\<rparr>))
       = Inl (ValueError ''Chunked prefill is not supported for pooling models'')"
proof -
  have h: "enable_chunked_prefill (default_args\<lparr>enable_chunked_prefill := Some True\<rparr>) = Some True"
    "runner_type (model_derived (plain_collaborators\<lparr>model_derived := pooling_model\<rparr>))
       = ''pooling''"
    by (simp_all add: pooling_model_def)
  have g: "resolved_task (model_derived (plain_collaborators\<lparr>model_derived := pooling_model\<rparr>))
       \<noteq> ''generate''" "\<not> VLLM_USE_V1 env_unset"
    by (simp_all add: pooling_model_def env_unset_def)
  from chunked_prefill_rejected_for_pooling [OF h, where P = cuda_platform
      and uc = "Some LLM_CLASS" and E = env_unset
      and mc = "fst (projr (snd (create_model_config env_unset plain_collaborators default_args)))"]
    h g
  show ?thesis by auto
qed

text \<open>
  Claim C4 as first stated fails: with the V1 engine forced, the same input does not fail
  with the validation error but with the \<^verbatim>\<open>NotImplementedError\<close> of the oracle's rule on
  the task.
\<close>

theorem forced_v1_pooling_counterexample:
  "enable_chunked_prefill (default_args\<lparr>enable_chunked_prefill := Some True\<rparr>) = Some True
   \<and> runner_type (model_derived (plain_collaborators\<lparr>model_derived := pooling_model\<rparr>))
       = ''pooling''
   \<and> snd (create_engine_config env_forced_v1 cuda_platform
         (plain_collaborators\<lparr>model_derived := pooling_model\<rparr>) (Some LLM_CLASS)
         (default_args\<lparr>enable_chunked_prefill := Some True\<rparr>))
       = Inl (NotImplementedError ''VLLM_USE_V1=1 is not supported with --task embed'')"
  by code_simp

subsection \<open>A scheduling policy other than the default\<close>

text \<open>
  Claim C5. Let the scheduling policy differ from \<^verbatim>\<open>"fcfs"\<close>. When \<^verbatim>\<open>VLLM_USE_V1\<close>
  does not hold, the oracle answers \<open>False\<close> with exactly one warning, the resolution logs
  that warning right after the model configuration is built, and a configuration it returns
  has \<^verbatim>\<open>use_v1\<close> false. When \<^verbatim>\<open>VLLM_USE_V1\<close> holds, the oracle and with it the
  resolution raise \<^verbatim>\<open>NotImplementedError\<close>, with nothing built but the device and model
  configurations.
\<close>

theorem non_default_scheduling_policy:
  assumes "scheduling_policy a \<noteq> ''fcfs''"
  shows "if VLLM_USE_V1 E
     then (\<exists>m. is_v1_supported_oracle E P a mc = ([], Inl (NotImplementedError m)))
        \<and> (\<exists>m. create_engine_config E P X uc a
                = ([Constructed DeviceConfig_cls, Constructed ModelConfig_cls],
                   Inl (NotImplementedError m)))
     else (\<exists>w. is_v1_supported_oracle E P a mc = ([Log WARNING w []], Inr False))
        \<and> (\<exists>w rest r. create_engine_config E P X uc a
                = (Constructed DeviceConfig_cls # Constructed ModelConfig_cls
                     # Log WARNING w [] # rest, r)
              \<and> (\<forall>cfg a'. r = Inr (cfg, a') \<longrightarrow> \<not> vc_use_v1 cfg))"
proof -
  from assms oracle_tier_a [of E P a mc] obtain f rm
    where o: "is_v1_supported_oracle E P a mc = unsupported E f rm" by blast
  obtain evs r where R: "create_engine_config E P X uc a = (evs, r)"
    by (cases "create_engine_config E P X uc a")
  show ?thesis
  proof (cases "VLLM_USE_V1 E")
    case True
    have "\<exists>m. r = Inl (NotImplementedError m)
        \<and> evs = [Constructed DeviceConfig_cls, Constructed ModelConfig_cls]"
    proof (cases r)
      case (Inl e)
      with R create_engine_config_Inl [of E P X uc a evs e] True assms show ?thesis by auto
    next
      case (Inr p)
      with R create_engine_config_Inr [of E P X uc a evs "fst p" "snd p"] True assms
      show ?thesis by auto
    qed
    with True o R show ?thesis by (auto simp: unsupported_eq)
  next
    case False
    with assms tier_a_fallback_events [of E a X P uc]
    obtain w rest r' where ev: "create_engine_config E P X uc a
           = (Constructed DeviceConfig_cls # Constructed ModelConfig_cls # Log WARNING w [] # rest, r')"
      by blast
    have "\<not> vc_use_v1 cfg" if "r' = Inr (cfg, a')" for cfg a'
      using create_engine_config_Inr [OF ev [unfolded that]] assms False
      by (auto simp: chosen_v1_def)
    with False o ev show ?thesis by (auto simp: unsupported_eq)
  qed
qed

text \<open>The theorem at the policy \<^verbatim>\<open>"priority"\<close>, with the override forced and unset.\<close>

theorem non_default_scheduling_policy_witness:
  "scheduling_policy (default_args\<lparr>scheduling_policy := ''priority''\<rparr>) \<noteq> ''fcfs''
   \<and> VLLM_USE_V1 env_forced_v1 \<and> \<not> VLLM_USE_V1 env_unset
   \<and> (\<exists>m. create_engine_config env_forced_v1 cuda_platform plain_collaborators (Some LLM_CLASS)
             (default_args\<lparr>scheduling_policy := ''priority''\<rparr>)
           = ([Constructed DeviceConfig_cls, Constructed ModelConfig_cls],
              Inl (NotImplementedError m)))
   \<and> (\<exists>w rest r. create_engine_config env_unset cuda_platform plain_collaborators (Some LLM_CLASS)
             (default_args\<lparr>scheduling_policy := ''priority''\<rparr>)
           = (Constructed DeviceConfig_cls # Constructed ModelConfig_cls
                # Log WARNING w [] # rest, r)
         \<and> (\<forall>cfg a'. r = Inr (cfg, a') \<longrightarrow> \<not> vc_use_v1 cfg))"
proof -
  have h: "scheduling_policy (default_args\<lparr>scheduling_policy := ''priority''\<rparr>) \<noteq> ''fcfs''"
    "VLLM_USE_V1 env_forced_v1" "\<not> VLLM_USE_V1 env_unset"
    by (simp_all add: env_forced_v1_def env_unset_def)
  from non_default_scheduling_policy [OF h(1), of env_forced_v1 cuda_platform _
      plain_collaborators "Some LLM_CLASS"]
    non_default_scheduling_policy [OF h(1), of env_unset cuda_platform _
      plain_collaborators "Some LLM_CLASS"] h
  show ?thesis by simp
qed

subsection \<open>Detailed-trace modules\<close>



subsection \<open>Determinism\<close>




end
